theory Spec2Isabelle
  imports Main "HOL-Library.AList"
begin

section \<open>JavaScript values, errors and strings\<close>

text \<open>
  The coverage options are the result of \<^verbatim>\<open>JSON.parse\<close>, the test options are whatever
  the caller hands to \<^verbatim>\<open>configure\<close>. Both are JavaScript values. Numbers are kept as
  integers: the program only tests them for truthiness.
\<close>

datatype jsval =
    Undefined
  | Null
  | Bool bool
  | Num int
  | Str string
  | Arr "jsval list"
  | Obj "(string \<times> jsval) list"

text \<open>What the program and the library calls it makes can throw.\<close>

datatype error =
    TypeError
  | SyntaxError
  | ENOENT
  | EEXIST
  | EISDIR
  | LibError string

text \<open>JavaScript truthiness, as used by \<^verbatim>\<open>!x\<close>, \<^verbatim>\<open>x && y\<close> and \<^verbatim>\<open>c ? a : b\<close>.\<close>

fun truthy :: "jsval \<Rightarrow> bool" where
  "truthy Undefined = False"
| "truthy Null = False"
| "truthy (Bool b) = b"
| "truthy (Num n) = (n \<noteq> 0)"
| "truthy (Str s) = (s \<noteq> [])"
| "truthy (Arr xs) = True"
| "truthy (Obj kvs) = True"

text \<open>
  \<^verbatim>\<open>v.k\<close> for a receiver that is neither \<^verbatim>\<open>undefined\<close> nor \<^verbatim>\<open>null\<close>: the own property, or
  \<^verbatim>\<open>undefined\<close>. The program reads only the keys \<^verbatim>\<open>coverConfig\<close>, \<^verbatim>\<open>enabled\<close>,
  \<^verbatim>\<open>relativeSourcePath\<close>, \<^verbatim>\<open>ignorePatterns\<close>, \<^verbatim>\<open>relativeCoverageDir\<close>, \<^verbatim>\<open>includePid\<close> and
  \<^verbatim>\<open>reports\<close>, none of which a prototype defines.
\<close>

fun member :: "jsval \<Rightarrow> string \<Rightarrow> jsval" where
  "member (Obj kvs) k = (case map_of kvs k of None \<Rightarrow> Undefined | Some v \<Rightarrow> v)"
| "member v k = Undefined"

text \<open>\<^verbatim>\<open>v.k\<close> in general: reading a property of \<^verbatim>\<open>undefined\<close> or \<^verbatim>\<open>null\<close> throws a TypeError.\<close>

definition get_prop :: "jsval \<Rightarrow> string \<Rightarrow> error + jsval" where
  "get_prop v k = (if v = Undefined \<or> v = Null then Inl TypeError else Inr (member v k))"

text \<open>
  \<^verbatim>\<open>'' + n\<close> for a non-negative integer \<open>n\<close> below \<open>10^21\<close> (a millisecond time stamp, a
  process id): its decimal digits.
\<close>

definition digit_char :: "nat \<Rightarrow> char" where
  "digit_char d = ''0123456789'' ! d"

fun string_of_nat :: "nat \<Rightarrow> string" where
  "string_of_nat n =
     (if n < 10 then [digit_char n] else string_of_nat (n div 10) @ [digit_char (n mod 10)])"

text \<open>
  \<^verbatim>\<open>toLocaleLowerCase\<close> on the ASCII letters; every other character is left as it is.
\<close>

definition lower_char :: "char \<Rightarrow> char" where
  "lower_char c =
     (case map_of (zip ''ABCDEFGHIJKLMNOPQRSTUVWXYZ'' ''abcdefghijklmnopqrstuvwxyz'') c of
        None \<Rightarrow> c
      | Some d \<Rightarrow> d)"

definition toLocaleLowerCase :: "string \<Rightarrow> string" where
  "toLocaleLowerCase s = map lower_char s"

section \<open>Coverage data\<close>

text \<open>
  The per-file coverage object of istanbul: the counters \<^verbatim>\<open>s\<close>, \<^verbatim>\<open>f\<close>, \<^verbatim>\<open>b\<close> keyed by the
  number of the statement, function or branch, and the static metadata (\<^verbatim>\<open>statementMap\<close>,
  \<^verbatim>\<open>fnMap\<close>, \<^verbatim>\<open>branchMap\<close>, \<^verbatim>\<open>inputSourceMap\<close>) as one value.
\<close>

record file_coverage =
  fc_path :: string
  fc_s :: "(nat \<times> nat) list"
  fc_f :: "(nat \<times> nat) list"
  fc_b :: "(nat \<times> nat list) list"
  fc_meta :: jsval

text \<open>
  The object \<^verbatim>\<open>global[coverageVar]\<close>: file name to coverage object. A JavaScript object
  lists its string keys in insertion order, so it is an association list with distinct
  keys; \<^verbatim>\<open>cov[file] = v\<close> is \<open>AList.update\<close> (in place when the key is there, at the end
  otherwise).
\<close>

type_synonym counter_table = "(string \<times> file_coverage) list"

text \<open>
  Lines 130 to 132: \<^verbatim>\<open>Object.keys(fileCoverage.s).forEach(key => fileCoverage.s[key] = 0)\<close>.
\<close>

definition reset_statements :: "file_coverage \<Rightarrow> file_coverage" where
  "reset_statements fc = fc\<lparr>fc_s := map (\<lambda>(key, n). (key, 0)) (fc_s fc)\<rparr>"

section \<open>The process\<close>

text \<open>
  A \<^verbatim>\<open>CoverageRunner\<close> after its constructor, and after \<^verbatim>\<open>setupCoverage\<close> has returned.
  The class is private to the module and \<^verbatim>\<open>reportCoverage\<close> is only reached through the
  exit listener that the last statement of \<^verbatim>\<open>setupCoverage\<close> registers, so
  \<^verbatim>\<open>reportCoverage\<close> always sees the second record. \<open>cr_fileMap\<close> is the \<^verbatim>\<open>fileMap\<close> that
  \<^verbatim>\<open>matchFn\<close> closes over, \<open>cr_files\<close> is \<^verbatim>\<open>matchFn.files\<close>, \<open>cr_hook\<close> says which require
  hook \<^verbatim>\<open>unhookRequire\<close> disables.
\<close>

record coverage_runner =
  cr_options :: jsval
  cr_testsRoot :: string
  cr_coverageVar :: string

record armed_runner = coverage_runner +
  cr_fileMap :: "(string \<times> bool) list"
  cr_files :: "string list"
  cr_hook :: nat

text \<open>A call of the completion callback \<^verbatim>\<open>clb\<close>.\<close>

datatype clb_call =
    Clb_message string
  | Clb_error error
  | Clb_done nat

text \<open>
  The state of the Node process that the module reads and writes: platform, process id
  and clock; the module variables \<^verbatim>\<open>testOptions\<close> and \<^verbatim>\<open>mocha\<close> (the files added to it and
  how often it ran); the file system; \<^verbatim>\<open>require.cache\<close>; the properties of \<^verbatim>\<open>global\<close>
  that hold counter tables; the require hooks installed through istanbul-lib-hook, each
  with its \<^verbatim>\<open>disable\<close> flag; the listeners of the exit event; what was written to
  \<^verbatim>\<open>console.error\<close>; the calls of the completion callback; the reports rendered (report,
  directory, coverage map).
\<close>

record world =
  win32 :: bool
  pid :: nat
  clock :: nat
  testOptions :: jsval
  mocha_files :: "string list"
  mocha_runs :: nat
  files :: "string \<rightharpoonup> string"
  dirs :: "string set"
  module_cache :: "string set"
  globals :: "string \<rightharpoonup> counter_table"
  hooks :: "(armed_runner \<times> bool) list"
  exit_listeners :: "armed_runner list"
  stderr :: "string list"
  callbacks :: "clb_call list"
  rendered :: "(string \<times> string \<times> counter_table) list"

text \<open>
  The library functions the module calls and whose results it does not control. They are
  parameters of the model: \<^verbatim>\<open>JSON.parse\<close> and \<^verbatim>\<open>JSON.stringify\<close>; \<^verbatim>\<open>path.join\<close>,
  \<^verbatim>\<open>path.resolve\<close> and \<^verbatim>\<open>path.dirname\<close> on strings; \<^verbatim>\<open>glob.sync\<close> (files of the file system,
  pattern, working directory, ignore option); \<^verbatim>\<open>instrumentSync\<close> of istanbul-lib-instrument
  (code, file name, source map), which returns the instrumented text and leaves the coverage
  object of the file in \<^verbatim>\<open>instrumenter.fileCoverage\<close>: the second component; the source-map
  translation of a coverage map; \<^verbatim>\<open>iReports.create\<close>, which throws on a report type it
  does not know.
\<close>

record libs =
  JSON_parse :: "string \<Rightarrow> error + jsval"
  JSON_stringify :: "counter_table \<Rightarrow> string"
  path_join :: "string \<Rightarrow> string \<Rightarrow> string"
  path_resolve :: "string \<Rightarrow> string \<Rightarrow> string"
  path_dirname :: "string \<Rightarrow> string"
  glob_sync :: "(string \<rightharpoonup> string) \<Rightarrow> string \<Rightarrow> string \<Rightarrow> jsval \<Rightarrow> error + string list"
  instrumentSync :: "string \<Rightarrow> string \<Rightarrow> jsval \<Rightarrow> error + (string \<times> file_coverage)"
  transformCoverage :: "counter_table \<Rightarrow> counter_table"
  iReports_create :: "jsval \<Rightarrow> error + string"

text \<open>\<^verbatim>\<open>path.join(a, b)\<close> on values: a TypeError unless both arguments are strings.\<close>

fun path_join_js :: "libs \<Rightarrow> jsval \<Rightarrow> jsval \<Rightarrow> error + string" where
  "path_join_js L (Str a) (Str b) = Inr (path_join L a b)"
| "path_join_js L a b = Inl TypeError"

subsection \<open>The file system\<close>

text \<open>
  Files and directories are keyed by path. On win32 the file system does not distinguish
  case, so every path is lower-cased before it is looked up.
\<close>

definition fs_norm :: "world \<Rightarrow> string \<Rightarrow> string" where
  "fs_norm w p = (if win32 w then toLocaleLowerCase p else p)"

definition existsSync :: "world \<Rightarrow> string \<Rightarrow> bool" where
  "existsSync w p = (fs_norm w p \<in> dirs w \<or> files w (fs_norm w p) \<noteq> None)"

definition readFileSync :: "world \<Rightarrow> string \<Rightarrow> error + string" where
  "readFileSync w p =
     (case files w (fs_norm w p) of
        Some text \<Rightarrow> Inr text
      | None \<Rightarrow> if fs_norm w p \<in> dirs w then Inl EISDIR else Inl ENOENT)"

definition mkdirSync :: "libs \<Rightarrow> string \<Rightarrow> world \<Rightarrow> error + world" where
  "mkdirSync L p w =
     (if existsSync w p then Inl EEXIST
      else if path_dirname L (fs_norm w p) \<notin> dirs w then Inl ENOENT
      else Inr (w\<lparr>dirs := insert (fs_norm w p) (dirs w)\<rparr>))"

definition writeFileSync :: "libs \<Rightarrow> string \<Rightarrow> string \<Rightarrow> world \<Rightarrow> error + world" where
  "writeFileSync L p data w =
     (if fs_norm w p \<in> dirs w then Inl EISDIR
      else if path_dirname L (fs_norm w p) \<notin> dirs w then Inl ENOENT
      else Inr (w\<lparr>files := (files w)(fs_norm w p \<mapsto> data)\<rparr>))"

section \<open>The module\<close>

text \<open>Lines 24 to 27: a new Mocha instance (no file added yet) and the test options.\<close>

definition configure :: "jsval \<Rightarrow> jsval \<Rightarrow> world \<Rightarrow> world" where
  "configure mochaOpts testOpts w = w\<lparr>testOptions := testOpts, mocha_files := []\<rparr>"

text \<open>Lines 29 to 33.\<close>

definition mkDirIfExists :: "libs \<Rightarrow> string \<Rightarrow> world \<Rightarrow> error + world" where
  "mkDirIfExists L dir w = (if \<not> existsSync w dir then mkdirSync L dir w else Inr w)"

subsection \<open>CoverageRunner\<close>

text \<open>Line 38: the name of the global that holds the counter table of this runner.\<close>

definition coverageVar :: "nat \<Rightarrow> string" where
  "coverageVar time = ''$$cov_'' @ string_of_nat time @ ''$$''"

text \<open>
  Lines 35 to 42. The completion callback is taken to return \<^verbatim>\<open>undefined\<close>, so that \<^verbatim>\<open>new\<close>
  yields the object under construction on both paths.
\<close>

definition CoverageRunner :: "jsval \<Rightarrow> string \<Rightarrow> world \<Rightarrow> coverage_runner \<times> world" where
  "CoverageRunner options testsRoot w =
     (let this = \<lparr>cr_options = options, cr_testsRoot = testsRoot,
                  cr_coverageVar = coverageVar (clock w)\<rparr>
      in if \<not> truthy (member options ''relativeSourcePath'')
         then (this, w\<lparr>callbacks := callbacks w @
                 [Clb_message ''Error - relativeSourcePath must be defined for code coverage to work'']\<rparr>)
         else (this, w))"

text \<open>
  Lines 54 to 70, one round of the \<^verbatim>\<open>forEach\<close>: the file map and \<^verbatim>\<open>require.cache\<close> after
  \<^verbatim>\<open>fileMap[fullPath] = true\<close> and \<^verbatim>\<open>decache(fullPath)\<close>.
\<close>

definition add_source ::
  "libs \<Rightarrow> bool \<Rightarrow> string \<Rightarrow> (string \<times> bool) list \<times> string set \<Rightarrow> string \<Rightarrow>
   (string \<times> bool) list \<times> string set" where
  "add_source L windows sourceRoot acc file =
     (let fullPath = path_join L sourceRoot file;
          fullPath = (if windows then toLocaleLowerCase fullPath else fullPath)
      in (AList.update fullPath True (fst acc), snd acc - {fullPath}))"

text \<open>Lines 71 to 79: \<^verbatim>\<open>this.matchFn\<close>; \<^verbatim>\<open>undefined\<close> is \<open>False\<close>.\<close>

definition matchFn :: "world \<Rightarrow> (string \<times> bool) list \<Rightarrow> string \<Rightarrow> bool" where
  "matchFn w fileMap file =
     (let file = (if win32 w then toLocaleLowerCase file else file)
      in case map_of fileMap file of None \<Rightarrow> False | Some b \<Rightarrow> b)"

text \<open>
  Lines 86 to 92: the companion source map, \<^verbatim>\<open>undefined\<close> when reading or parsing it throws.
\<close>

definition read_source_map :: "libs \<Rightarrow> world \<Rightarrow> string \<Rightarrow> jsval" where
  "read_source_map L w filename =
     (case readFileSync w (filename @ ''.map'') of
        Inl err \<Rightarrow> Undefined
      | Inr text \<Rightarrow> (case JSON_parse L text of Inl err \<Rightarrow> Undefined | Inr m \<Rightarrow> m))"

text \<open>
  Lines 84 to 94: \<^verbatim>\<open>this.transformer\<close>. Both callers (the require hook and line 126) pass
  an options object whose \<^verbatim>\<open>filename\<close> is a string.
\<close>

definition transformer :: "libs \<Rightarrow> world \<Rightarrow> string \<Rightarrow> string \<Rightarrow> error + (string \<times> file_coverage)" where
  "transformer L w code filename =
     instrumentSync L code filename (read_source_map L w filename)"

text \<open>
  Lines 43 to 103. The instrumenter holds no state of its own between calls that the
  module reads (see \<open>libs\<close>), so creating it leaves no trace in the model.
\<close>

definition setupCoverage :: "libs \<Rightarrow> coverage_runner \<Rightarrow> world \<Rightarrow> (error + armed_runner) \<times> world" where
  "setupCoverage L this w =
     (case path_join_js L (Str (cr_testsRoot this)) (member (cr_options this) ''relativeSourcePath'') of
        Inl err \<Rightarrow> (Inl err, w)
      | Inr sourceRoot \<Rightarrow>
          (case glob_sync L (files w) ''**/**.js'' sourceRoot (member (cr_options this) ''ignorePatterns'') of
             Inl err \<Rightarrow> (Inl err, w)
           | Inr srcFiles \<Rightarrow>
               (let acc = foldl (add_source L (win32 w) sourceRoot) ([], module_cache w) srcFiles;
                    fileMap = fst acc;
                    armed = \<lparr>cr_options = cr_options this, cr_testsRoot = cr_testsRoot this,
                             cr_coverageVar = cr_coverageVar this,
                             cr_fileMap = fileMap, cr_files = map fst fileMap,
                             cr_hook = length (hooks w)\<rparr>;
                    w = w\<lparr>module_cache := snd acc\<rparr>;
                    w = w\<lparr>hooks := hooks w @ [(armed, False)]\<rparr>;
                    w = w\<lparr>globals := (globals w)(cr_coverageVar this \<mapsto> [])\<rparr>;
                    w = w\<lparr>exit_listeners := exit_listeners w @ [armed]\<rparr>
                in (Inr armed, w))))"

text \<open>\<^verbatim>\<open>this.unhookRequire()\<close>: the hook's \<^verbatim>\<open>disable\<close> flag is set.\<close>

definition unhookRequire :: "armed_runner \<Rightarrow> world \<Rightarrow> world" where
  "unhookRequire this w =
     (if cr_hook this < length (hooks w)
      then w\<lparr>hooks := (hooks w)[cr_hook this := (fst (hooks w ! cr_hook this), True)]\<rparr>
      else w)"

text \<open>
  Lines 124 to 135: the \<^verbatim>\<open>forEach\<close> over \<^verbatim>\<open>matchFn.files\<close>. An entry of the table is an object
  and so truthy: \<^verbatim>\<open>!cov[file]\<close> holds exactly when the key is missing. The result is the
  error thrown, if any, and the table as it is then.
\<close>

fun fill_missing :: "libs \<Rightarrow> world \<Rightarrow> string list \<Rightarrow> counter_table \<Rightarrow> error option \<times> counter_table" where
  "fill_missing L w [] cov = (None, cov)"
| "fill_missing L w (file # rest) cov =
     (if map_of cov file = None
      then (case readFileSync w file of
              Inl err \<Rightarrow> (Some err, cov)
            | Inr code \<Rightarrow>
                (case transformer L w code file of
                   Inl err \<Rightarrow> (Some err, cov)
                 | Inr (text, fileCoverage) \<Rightarrow>
                     fill_missing L w rest (AList.update file (reset_statements fileCoverage) cov)))
      else fill_missing L w rest cov)"

text \<open>
  Lines 150 to 153: one report per element of \<^verbatim>\<open>reportTypes\<close>, until one throws. What is
  kept of a rendering is that it happened; the files a renderer writes are not in the
  model.
\<close>

fun visit_reports :: "libs \<Rightarrow> counter_table \<Rightarrow> string \<Rightarrow> jsval list \<Rightarrow> world \<Rightarrow> (error + unit) \<times> world" where
  "visit_reports L coverageMap dir [] w = (Inr (), w)"
| "visit_reports L coverageMap dir (reportType # rest) w =
     (case iReports_create L reportType of
        Inl err \<Rightarrow> (Inl err, w)
      | Inr report \<Rightarrow>
          visit_reports L coverageMap dir rest
            (w\<lparr>rendered := rendered w @ [(report, dir, coverageMap)]\<rparr>))"

definition no_coverage_message :: string where
  "no_coverage_message =
     ''No coverage information was collected, exit without writing coverage information''"

text \<open>
  Line 150: \<^verbatim>\<open>(options.reports instanceof Array) ? options.reports : ['lcovonly']\<close>.
\<close>

definition reportTypes :: "jsval \<Rightarrow> jsval list" where
  "reportTypes options =
     (case member options ''reports'' of Arr xs \<Rightarrow> xs | other \<Rightarrow> [Str ''lcovonly''])"

text \<open>Line 142: the path of the raw JSON snapshot.\<close>

definition coverageFile :: "libs \<Rightarrow> jsval \<Rightarrow> nat \<Rightarrow> string \<Rightarrow> string" where
  "coverageFile L options process_pid reportingDir =
     (let includePid = member options ''includePid'';
          pidExt = (if truthy includePid then ''-'' @ string_of_nat process_pid else '''')
      in path_resolve L reportingDir (''coverage'' @ pidExt @ ''.json''))"

text \<open>
  Lines 136 to 153, the second half of \<^verbatim>\<open>reportCoverage\<close>: \<open>cov\<close> is the counter table
  after the loop over \<^verbatim>\<open>matchFn.files\<close>.
\<close>

definition emit_reports :: "libs \<Rightarrow> armed_runner \<Rightarrow> counter_table \<Rightarrow> world \<Rightarrow> (error + unit) \<times> world" where
  "emit_reports L this cov w =
     (let coverageMap = transformCoverage L cov
      in case path_join_js L (Str (cr_testsRoot this))
                (member (cr_options this) ''relativeCoverageDir'') of
           Inl err \<Rightarrow> (Inl err, w)
         | Inr reportingDir \<Rightarrow>
             (case mkDirIfExists L reportingDir w of
                Inl err \<Rightarrow> (Inl err, w)
              | Inr w \<Rightarrow>
                  (case writeFileSync L
                          (coverageFile L (cr_options this) (pid w) reportingDir)
                          (JSON_stringify L cov) w of
                     Inl err \<Rightarrow> (Inl err, w)
                   | Inr w \<Rightarrow>
                       visit_reports L coverageMap reportingDir
                         (reportTypes (cr_options this)) w)))"

text \<open>Lines 111 to 154.\<close>

definition reportCoverage :: "libs \<Rightarrow> armed_runner \<Rightarrow> world \<Rightarrow> (error + unit) \<times> world" where
  "reportCoverage L this w0 =
     (let w = unhookRequire this w0
      in case globals w (cr_coverageVar this) of
           None \<Rightarrow> (Inr (), w\<lparr>stderr := stderr w @ [no_coverage_message]\<rparr>)
         | Some cov0 \<Rightarrow>
             if cov0 = [] then (Inr (), w\<lparr>stderr := stderr w @ [no_coverage_message]\<rparr>)
             else
               (case fill_missing L w (cr_files this) cov0 of
                  (Some err, cov) \<Rightarrow>
                    (Inl err, w\<lparr>globals := (globals w)(cr_coverageVar this \<mapsto> cov)\<rparr>)
                | (None, cov) \<Rightarrow>
                    emit_reports L this cov
                      (w\<lparr>globals := (globals w)(cr_coverageVar this \<mapsto> cov)\<rparr>)))"

subsection \<open>Reading the options and running\<close>

text \<open>Lines 156 to 164.\<close>

definition readCoverOptions :: "libs \<Rightarrow> string \<Rightarrow> world \<Rightarrow> error + jsval" where
  "readCoverOptions L testsRoot w =
     (case get_prop (testOptions w) ''coverConfig'' of
        Inl err \<Rightarrow> Inl err
      | Inr coverConfig \<Rightarrow>
          (case path_join_js L (Str testsRoot) coverConfig of
             Inl err \<Rightarrow> Inl err
           | Inr coverConfigPath \<Rightarrow>
               if existsSync w coverConfigPath
               then (case readFileSync w coverConfigPath of
                       Inl err \<Rightarrow> Inl err
                     | Inr configContent \<Rightarrow> JSON_parse L configContent)
               else Inr Undefined))"

text \<open>
  What the test run does, as far as the module can see it: the modules it loads through
  \<^verbatim>\<open>require\<close> besides the test files (absolute file names, in the order of their first
  load), the counters of an instrumented file once the tests have run, and whether
  \<^verbatim>\<open>mocha.run\<close> throws or reports a failure count.
\<close>

record test_env =
  requires :: "string list"
  executed :: "file_coverage \<Rightarrow> file_coverage"
  mocha_result :: "error + nat"

text \<open>
  The contract of \<^verbatim>\<open>hookRequire(matchFn, transformer)\<close> for one hook: when the hook is not
  disabled and \<^verbatim>\<open>matchFn(filename)\<close> holds, the code is replaced by
  \<^verbatim>\<open>transformer(code, {filename})\<close>; the library catches what the transformer throws and
  keeps the code. The accumulator is the code so far and the coverage objects to
  register, each with the coverage variable of its instrumenter.
\<close>

definition load_through_hook ::
  "libs \<Rightarrow> world \<Rightarrow> string \<Rightarrow> string \<times> (string \<times> file_coverage) list \<Rightarrow> armed_runner \<times> bool \<Rightarrow>
   string \<times> (string \<times> file_coverage) list" where
  "load_through_hook L w filename acc hook =
     (if snd hook \<or> \<not> matchFn w (cr_fileMap (fst hook)) filename then acc
      else (case transformer L w (fst acc) filename of
              Inl err \<Rightarrow> acc
            | Inr (text, fileCoverage) \<Rightarrow>
                (text, snd acc @ [(cr_coverageVar (fst hook), fileCoverage)])))"

text \<open>
  The contract of instrumented code: when it runs it puts its coverage object into
  \<^verbatim>\<open>global[coverageVar]\<close> under the file name given to \<^verbatim>\<open>instrumentSync\<close>, creating the
  table when there is none and keeping an entry that is there, and counts into it.
\<close>

definition register_coverage :: "test_env \<Rightarrow> string \<Rightarrow> world \<Rightarrow> string \<times> file_coverage \<Rightarrow> world" where
  "register_coverage E filename w entry =
     (let cov = (case globals w (fst entry) of None \<Rightarrow> [] | Some cov \<Rightarrow> cov);
          fileCoverage = (case map_of cov filename of None \<Rightarrow> snd entry | Some old \<Rightarrow> old)
      in w\<lparr>globals := (globals w)(fst entry \<mapsto> AList.update filename (executed E fileCoverage) cov)\<rparr>)"

text \<open>\<^verbatim>\<open>require(filename)\<close> of a JavaScript file.\<close>

definition require_module :: "libs \<Rightarrow> test_env \<Rightarrow> string \<Rightarrow> world \<Rightarrow> error + world" where
  "require_module L E filename w =
     (if filename \<in> module_cache w then Inr w
      else (case readFileSync w filename of
              Inl err \<Rightarrow> Inl err
            | Inr code \<Rightarrow>
                (let loaded = foldl (load_through_hook L w filename) (code, []) (hooks w);
                     w = foldl (register_coverage E filename) w (snd loaded)
                 in Inr (w\<lparr>module_cache := insert filename (module_cache w)\<rparr>))))"

fun require_all :: "libs \<Rightarrow> test_env \<Rightarrow> string list \<Rightarrow> world \<Rightarrow> (error + unit) \<times> world" where
  "require_all L E [] w = (Inr (), w)"
| "require_all L E (filename # rest) w =
     (case require_module L E filename w of
        Inl err \<Rightarrow> (Inl err, w)
      | Inr w \<Rightarrow> require_all L E rest w)"

text \<open>
  \<^verbatim>\<open>mocha.run\<close>: the files added to mocha are loaded, then the modules the tests require,
  and the run ends with a failure count unless something throws.
\<close>

definition mocha_run :: "libs \<Rightarrow> test_env \<Rightarrow> world \<Rightarrow> (error + nat) \<times> world" where
  "mocha_run L E w0 =
     (let w = w0\<lparr>mocha_runs := Suc (mocha_runs w0)\<rparr>
      in case require_all L E (mocha_files w @ requires E) w of
           (Inl err, w) \<Rightarrow> (Inl err, w)
         | (Inr u, w) \<Rightarrow> (mocha_result E, w))"

text \<open>
  Lines 174 to 191: the test files are globbed and the callback of \<^verbatim>\<open>glob\<close> runs. \<^verbatim>\<open>glob\<close>
  hands its callback what \<^verbatim>\<open>glob.sync\<close> returns or throws.
\<close>

definition run_tests :: "libs \<Rightarrow> test_env \<Rightarrow> string \<Rightarrow> world \<Rightarrow> world" where
  "run_tests L E testsRoot w =
     (case glob_sync L (files w) ''**/**.test.js'' testsRoot Undefined of
        Inl err \<Rightarrow> w\<lparr>callbacks := callbacks w @ [Clb_error err]\<rparr>
      | Inr fs \<Rightarrow>
          (let w = w\<lparr>mocha_files := mocha_files w @ map (path_join L testsRoot) fs\<rparr>
           in case mocha_run L E w of
                (Inl err, w) \<Rightarrow> w\<lparr>callbacks := callbacks w @ [Clb_error err]\<rparr>
              | (Inr failureCount, w) \<Rightarrow> w\<lparr>callbacks := callbacks w @ [Clb_done failureCount]\<rparr>))"

text \<open>
  Lines 165 to 192. \<open>Inl\<close> is an exception that leaves \<^verbatim>\<open>run\<close>; the world is the one at
  the throw.
\<close>

definition run :: "libs \<Rightarrow> test_env \<Rightarrow> string \<Rightarrow> world \<Rightarrow> (error + unit) \<times> world" where
  "run L E testsRoot w =
     (case readCoverOptions L testsRoot w of
        Inl err \<Rightarrow> (Inl err, w)
      | Inr coverOptions \<Rightarrow>
          if truthy coverOptions \<and> truthy (member coverOptions ''enabled'')
          then (case CoverageRunner coverOptions testsRoot w of
                  (coverageRunner, w) \<Rightarrow>
                    (case setupCoverage L coverageRunner w of
                       (Inl err, w) \<Rightarrow> (Inl err, w)
                     | (Inr armed, w) \<Rightarrow> (Inr (), run_tests L E testsRoot w)))
          else (Inr (), run_tests L E testsRoot w))"

text \<open>
  The exit event: the listeners run in the order of their registration; an exception in
  one of them ends the sequence.
\<close>

fun emit_exit :: "libs \<Rightarrow> armed_runner list \<Rightarrow> world \<Rightarrow> (error + unit) \<times> world" where
  "emit_exit L [] w = (Inr (), w)"
| "emit_exit L (listener # rest) w =
     (case reportCoverage L listener w of
        (Inl err, w) \<Rightarrow> (Inl err, w)
      | (Inr u, w) \<Rightarrow> emit_exit L rest w)"

definition process_exit :: "libs \<Rightarrow> world \<Rightarrow> (error + unit) \<times> world" where
  "process_exit L w = emit_exit L (exit_listeners w) w"

section \<open>Invariants of the counter table\<close>

text \<open>
  Two predicates for the proofs about a test run. The table of a coverage variable, if
  there is one, has distinct keys that all lie in a set of paths; and the platform is not
  win32 and every hook that counts under that variable matches only paths of the set.
\<close>

definition keys_within :: "string set \<Rightarrow> string \<Rightarrow> world \<Rightarrow> bool" where
  "keys_within S var w =
     (case globals w var of
        None \<Rightarrow> True
      | Some cov \<Rightarrow> fst ` set cov \<subseteq> S \<and> distinct (map fst cov))"

definition hooks_within :: "string set \<Rightarrow> string \<Rightarrow> world \<Rightarrow> bool" where
  "hooks_within S var w =
     (\<not> win32 w \<and>
      (\<forall>h \<in> set (hooks w). cr_coverageVar (fst h) = var \<longrightarrow> fst ` set (cr_fileMap (fst h)) \<subseteq> S))"

section \<open>A worked example\<close>

text \<open>
  A project \<^verbatim>\<open>/p\<close> with the sources \<^verbatim>\<open>src/A.js\<close> and \<^verbatim>\<open>src/b.js\<close> and one test file that
  requires \<^verbatim>\<open>A.js\<close> only. The library functions are the simplest ones that fit.
\<close>

definition example_options :: jsval where
  "example_options =
     Obj [(''enabled'', Bool True), (''relativeSourcePath'', Str ''src''),
          (''relativeCoverageDir'', Str ''coverage'')]"

definition example_options_no_reports :: jsval where
  "example_options_no_reports =
     Obj [(''enabled'', Bool True), (''relativeSourcePath'', Str ''src''),
          (''relativeCoverageDir'', Str ''coverage''), (''reports'', Arr [])]"

definition example_parse :: "string \<Rightarrow> error + jsval" where
  "example_parse content =
     (case map_of
        [(''coverage on'', example_options),
         (''coverage off'', Obj [(''enabled'', Bool False), (''relativeSourcePath'', Str ''src'')]),
         (''no source path'', Obj [(''enabled'', Bool True)]),
         (''no reports'', example_options_no_reports)] content of
        None \<Rightarrow> Inl SyntaxError
      | Some v \<Rightarrow> Inr v)"

definition example_stringify :: "counter_table \<Rightarrow> string" where
  "example_stringify cov =
     concat (map (\<lambda>(name, fc). name @ '':'' @ concat (map (\<lambda>(key, n). string_of_nat n) (fc_s fc)) @ '';'') cov)"

definition example_dirname :: "string \<Rightarrow> string" where
  "example_dirname p = rev (drop 1 (dropWhile (\<lambda>c. c \<noteq> CHR ''/'') (rev p)))"

definition example_instrument :: "string \<Rightarrow> string \<Rightarrow> jsval \<Rightarrow> error + (string \<times> file_coverage)" where
  "example_instrument code filename sourceMap =
     (if code = ''syntax error'' then Inl (LibError ''unexpected token'')
      else Inr (''cov;'' @ code,
                \<lparr>fc_path = filename, fc_s = [(0, 1), (1, 0)], fc_f = [(0, 0)], fc_b = [],
                 fc_meta = sourceMap\<rparr>))"

definition example_create :: "jsval \<Rightarrow> error + string" where
  "example_create reportType =
     (case reportType of
        Str name \<Rightarrow> if name \<in> set [''lcovonly'', ''html'', ''json''] then Inr name
                    else Inl (LibError ''unsupported report type'')
      | other \<Rightarrow> Inl TypeError)"

definition example_libs :: libs where
  "example_libs =
     \<lparr>JSON_parse = example_parse,
      JSON_stringify = example_stringify,
      path_join = (\<lambda>a b. a @ ''/'' @ b),
      path_resolve = (\<lambda>a b. a @ ''/'' @ b),
      path_dirname = example_dirname,
      glob_sync = (\<lambda>fs pattern cwd ignore.
         if pattern = ''**/**.js'' then Inr [''A.js'', ''b.js''] else Inr [''a.test.js'']),
      instrumentSync = example_instrument,
      transformCoverage = (\<lambda>cov. cov),
      iReports_create = example_create\<rparr>"

text \<open>
  The process when \<^verbatim>\<open>run\<close> is called, with the content of the coverage config file. On
  win32 the file system keeps its paths in lower case.
\<close>

definition example_files :: "bool \<Rightarrow> string \<Rightarrow> string \<rightharpoonup> string" where
  "example_files windows config =
     [''/p/coverconfig.json'' \<mapsto> config,
      ''/p/a.test.js'' \<mapsto> ''test a'',
      (if windows then ''/p/src/a.js'' else ''/p/src/A.js'') \<mapsto> ''function a() {}'',
      ''/p/src/b.js'' \<mapsto> ''function b() {}'']"

definition example_world :: "bool \<Rightarrow> string \<Rightarrow> world" where
  "example_world windows config =
     \<lparr>win32 = windows, pid = 4242, clock = 1700000000000,
      testOptions = Obj [(''coverConfig'', Str ''coverconfig.json'')],
      mocha_files = [], mocha_runs = 0,
      files = example_files windows config,
      dirs = {''/p'', ''/p/src''},
      module_cache = {},
      globals = Map.empty,
      hooks = [], exit_listeners = [], stderr = [], callbacks = [], rendered = []\<rparr>"

definition example_tests :: test_env where
  "example_tests =
     \<lparr>requires = [''/p/src/A.js''],
      executed = (\<lambda>fc. fc\<lparr>fc_s := map (\<lambda>(key, n). (key, if key = 0 then 3 else n)) (fc_s fc)\<rparr>),
      mocha_result = Inr 0\<rparr>"

text \<open>The runner that \<^verbatim>\<open>run\<close> sets up in the example, and the process when the tests have run.\<close>

definition example_runner :: "bool \<Rightarrow> jsval \<Rightarrow> armed_runner" where
  "example_runner windows options =
     \<lparr>cr_options = options, cr_testsRoot = ''/p'',
      cr_coverageVar = ''$$cov_1700000000000$$'',
      cr_fileMap = [(if windows then ''/p/src/a.js'' else ''/p/src/A.js'', True), (''/p/src/b.js'', True)],
      cr_files = [if windows then ''/p/src/a.js'' else ''/p/src/A.js'', ''/p/src/b.js''],
      cr_hook = 0\<rparr>"

definition example_table :: counter_table where
  "example_table =
     [(''/p/src/A.js'',
       \<lparr>fc_path = ''/p/src/A.js'', fc_s = [(0, 3), (1, 0)], fc_f = [(0, 0)], fc_b = [],
        fc_meta = Undefined\<rparr>)]"

definition example_run_world :: "bool \<Rightarrow> jsval \<Rightarrow> world" where
  "example_run_world windows options =
     \<lparr>win32 = windows, pid = 4242, clock = 1700000000000,
      testOptions = Obj [(''coverConfig'', Str ''coverconfig.json'')],
      mocha_files = [''/p/a.test.js''], mocha_runs = Suc 0,
      files = example_files windows ''coverage on'',
      dirs = {''/p'', ''/p/src''},
      module_cache = {''/p/src/A.js'', ''/p/a.test.js''},
      globals = [''$$cov_1700000000000$$'' \<mapsto> example_table],
      hooks = [(example_runner windows options, False)],
      exit_listeners = [example_runner windows options],
      stderr = [], callbacks = [Clb_done 0], rendered = []\<rparr>"

text \<open>The process between \<^verbatim>\<open>setupCoverage\<close> and the tests.\<close>

definition example_armed_world :: "bool \<Rightarrow> jsval \<Rightarrow> world" where
  "example_armed_world windows options =
     (example_world windows ''coverage on'')
       \<lparr>globals := [''$$cov_1700000000000$$'' \<mapsto> []],
        hooks := [(example_runner windows options, False)],
        exit_listeners := [example_runner windows options]\<rparr>"

text \<open>The process after the exit listener, with the names of the reports rendered.\<close>

definition example_zero :: "string \<Rightarrow> string \<times> file_coverage" where
  "example_zero name =
     (name, \<lparr>fc_path = name, fc_s = [(0, 0), (1, 0)], fc_f = [(0, 0)], fc_b = [],
             fc_meta = Undefined\<rparr>)"

definition example_final_table :: "bool \<Rightarrow> counter_table" where
  "example_final_table windows =
     example_table @ (if windows then [example_zero ''/p/src/a.js''] else []) @
     [example_zero ''/p/src/b.js'']"

definition example_exit_world :: "bool \<Rightarrow> jsval \<Rightarrow> string list \<Rightarrow> world" where
  "example_exit_world windows options reports =
     (example_run_world windows options)
       \<lparr>files := (example_files windows ''coverage on'')
          (''/p/coverage/coverage.json'' \<mapsto> example_stringify (example_final_table windows)),
        dirs := {''/p/coverage'', ''/p'', ''/p/src''},
        globals := [''$$cov_1700000000000$$'' \<mapsto> example_final_table windows],
        hooks := [(example_runner windows options, True)],
        rendered := map (\<lambda>report. (report, ''/p/coverage'', example_final_table windows)) reports\<rparr>"

text \<open>The process when the module has been loaded and \<^verbatim>\<open>configure\<close> has not been called.\<close>

definition example_unconfigured :: world where
  "example_unconfigured = (example_world False ''coverage on'')\<lparr>testOptions := Undefined\<rparr>"

text \<open>The project without a coverage config file.\<close>

definition example_no_config :: world where
  "example_no_config = (example_world False ''coverage on'')\<lparr>files := Map.empty\<rparr>"

section \<open>Decimal rendering is injective\<close>

declare string_of_nat.simps [simp del]

lemma digit_char_inj: "a < 10 \<Longrightarrow> b < 10 \<Longrightarrow> digit_char a = digit_char b \<Longrightarrow> a = b"
proof -
  assume a: "a < 10" and b: "b < 10" and eq: "digit_char a = digit_char b"
  have d: "distinct ''0123456789''" by simp
  have l: "length ''0123456789'' = 10" by simp
  from eq have "''0123456789'' ! a = ''0123456789'' ! b" by (simp only: digit_char_def)
  with d a b l show "a = b" by (simp only: nth_eq_iff_index_eq)
qed

lemma string_of_nat_small: "n < 10 \<Longrightarrow> string_of_nat n = [digit_char n]"
  by (simp add: string_of_nat.simps [of n])

lemma string_of_nat_big:
  "\<not> n < 10 \<Longrightarrow> string_of_nat n = string_of_nat (n div 10) @ [digit_char (n mod 10)]"
  by (simp add: string_of_nat.simps [of n])

lemma string_of_nat_nonempty: "string_of_nat n \<noteq> []" "[] \<noteq> string_of_nat n"
  by (cases "n < 10"; simp add: string_of_nat_small string_of_nat_big)+

lemma string_of_nat_inj: "string_of_nat m = string_of_nat n \<Longrightarrow> m = n"
proof (induction m arbitrary: n rule: string_of_nat.induct)
  case (1 m)
  show ?case
  proof (cases "m < 10")
    case small: True
    show ?thesis
    proof (cases "n < 10")
      case True
      with small "1.prems" show ?thesis
        by (simp add: string_of_nat_small digit_char_inj)
    next
      case False
      with small "1.prems" show ?thesis
        by (simp add: string_of_nat_small string_of_nat_big string_of_nat_nonempty)
    qed
  next
    case big: False
    show ?thesis
    proof (cases "n < 10")
      case True
      with big "1.prems" show ?thesis
        by (simp add: string_of_nat_small string_of_nat_big string_of_nat_nonempty)
    next
      case False
      with big "1.prems" have init: "string_of_nat (m div 10) = string_of_nat (n div 10)"
        and last: "digit_char (m mod 10) = digit_char (n mod 10)"
        by (simp_all add: string_of_nat_big)
      from init big have "m div 10 = n div 10" by (rule "1.IH" [rotated])
      moreover from last have "m mod 10 = n mod 10" by (simp add: digit_char_inj)
      ultimately show ?thesis by (metis div_mult_mod_eq)
    qed
  qed
qed

lemma coverageVar_inj: "coverageVar s = coverageVar t \<Longrightarrow> s = t"
  by (simp add: coverageVar_def string_of_nat_inj)

section \<open>The loop over the source files and the emission of the reports\<close>

lemma unhookRequire_frame [simp]:
  "globals (unhookRequire this w) = globals w"
  "files (unhookRequire this w) = files w"
  "dirs (unhookRequire this w) = dirs w"
  "win32 (unhookRequire this w) = win32 w"
  "pid (unhookRequire this w) = pid w"
  "stderr (unhookRequire this w) = stderr w"
  "rendered (unhookRequire this w) = rendered w"
  "exit_listeners (unhookRequire this w) = exit_listeners w"
  by (simp_all add: unhookRequire_def)

lemma unhookRequire_idem [simp]:
  "unhookRequire this (unhookRequire this w) = unhookRequire this w"
  by (simp add: unhookRequire_def)

lemma readFileSync_cong:
  "files w' = files w \<Longrightarrow> dirs w' = dirs w \<Longrightarrow> win32 w' = win32 w \<Longrightarrow>
   readFileSync w' p = readFileSync w p"
  by (simp add: readFileSync_def fs_norm_def)

lemma transformer_cong:
  "files w' = files w \<Longrightarrow> dirs w' = dirs w \<Longrightarrow> win32 w' = win32 w \<Longrightarrow>
   transformer L w' code p = transformer L w code p"
  by (simp add: transformer_def read_source_map_def readFileSync_cong [of w' w])

lemma fill_missing_cong:
  "files w' = files w \<Longrightarrow> dirs w' = dirs w \<Longrightarrow> win32 w' = win32 w \<Longrightarrow>
   fill_missing L w' fs cov = fill_missing L w fs cov"
  by (induction fs arbitrary: cov)
     (simp_all add: readFileSync_cong [of w' w] transformer_cong [of w' w]
        split: sum.splits prod.splits)

lemma fill_missing_keys:
  "fill_missing L w fs cov = (None, cov') \<Longrightarrow> fst ` set cov' = fst ` set cov \<union> set fs"
proof (induction fs arbitrary: cov)
  case Nil
  then show ?case by simp
next
  case (Cons f rest)
  show ?case
  proof (cases "map_of cov f")
    case None
    with Cons.prems obtain fc where
      "fill_missing L w rest (AList.update f (reset_statements fc) cov) = (None, cov')"
      by (auto split: sum.splits prod.splits)
    then have "fst ` set cov' = fst ` set (AList.update f (reset_statements fc) cov) \<union> set rest"
      by (rule Cons.IH)
    then show ?thesis by (auto simp: AList.dom_update)
  next
    case (Some old)
    with Cons.prems have "fill_missing L w rest cov = (None, cov')" by simp
    then have "fst ` set cov' = fst ` set cov \<union> set rest" by (rule Cons.IH)
    moreover from Some have "f \<in> fst ` set cov"
      by (metis domI dom_map_of_conv_image_fst)
    ultimately show ?thesis by auto
  qed
qed

lemma fill_missing_distinct:
  "distinct (map fst cov) \<Longrightarrow> distinct (map fst (snd (fill_missing L w fs cov)))"
  by (induction fs arbitrary: cov)
     (auto simp: AList.distinct_update split: sum.splits prod.splits)

lemma fill_missing_keeps:
  "map_of cov file = Some fc \<Longrightarrow> map_of (snd (fill_missing L w fs cov)) file = Some fc"
proof (induction fs arbitrary: cov)
  case Nil
  then show ?case by simp
next
  case (Cons f rest)
  then show ?case
    by (cases "f = file") (auto simp: AList.update_conv' split: sum.splits prod.splits)
qed

lemma fill_missing_absent:
  assumes "fill_missing L w fs cov = (None, cov')"
    and "file \<in> set fs" and "map_of cov file = None"
  shows "\<exists>code text fc. readFileSync w file = Inr code \<and>
           transformer L w code file = Inr (text, fc) \<and>
           map_of cov' file = Some (reset_statements fc)"
  using assms
proof (induction fs arbitrary: cov)
  case Nil
  then show ?case by simp
next
  case (Cons f rest)
  show ?case
  proof (cases "map_of cov f")
    case (Some old)
    with Cons.prems have "f \<noteq> file" and "fill_missing L w rest cov = (None, cov')"
      by auto
    with Cons.prems Cons.IH [of cov] show ?thesis by auto
  next
    case None
    with Cons.prems obtain code instrumented fc where
      rd: "readFileSync w f = Inr code" and tr: "transformer L w code f = Inr (instrumented, fc)"
      and rest: "fill_missing L w rest (AList.update f (reset_statements fc) cov) = (None, cov')"
      by (auto split: sum.splits prod.splits)
    show ?thesis
    proof (cases "f = file")
      case True
      have "map_of (snd (fill_missing L w rest (AList.update f (reset_statements fc) cov))) file
            = Some (reset_statements fc)"
        by (rule fill_missing_keeps) (simp add: True AList.update_conv')
      with rest rd tr True show ?thesis by auto
    next
      case False
      with Cons.prems have "file \<in> set rest"
        and "map_of (AList.update f (reset_statements fc) cov) file = None"
        by (auto simp: AList.update_conv')
      with rest Cons.IH show ?thesis by blast
    qed
  qed
qed

lemma fill_missing_present:
  "\<forall>f \<in> set fs. map_of cov f \<noteq> None \<Longrightarrow> fill_missing L w fs cov = (None, cov)"
  by (induction fs) auto

lemma fill_missing_nonempty: "cov \<noteq> [] \<Longrightarrow> snd (fill_missing L w fs cov) \<noteq> []"
  by (induction fs arbitrary: cov) (auto split: sum.splits prod.splits)

lemma reset_statements_zero: "(key, n) \<in> set (fc_s (reset_statements fc)) \<Longrightarrow> n = 0"
  by (auto simp: reset_statements_def)

lemma reset_statements_keys: "map fst (fc_s (reset_statements fc)) = map fst (fc_s fc)"
  by (simp add: reset_statements_def case_prod_unfold comp_def)

lemma visit_reports_success:
  "visit_reports L m dir ts w = (Inr (), w') \<longleftrightarrow>
     (\<exists>rs. map (iReports_create L) ts = map Inr rs \<and>
           w' = w\<lparr>rendered := rendered w @ map (\<lambda>r. (r, dir, m)) rs\<rparr>)"
proof (induction ts arbitrary: w)
  case Nil
  show ?case by auto
next
  case (Cons t ts)
  show ?case
  proof (cases "iReports_create L t")
    case (Inl err)
    then show ?thesis by (auto simp: map_eq_Cons_conv)
  next
    case (Inr r)
    show ?thesis
      by (simp add: Inr Cons.IH map_eq_Cons_conv) (auto simp: Cons_eq_map_conv)
  qed
qed



lemma fill_missing_unhook [simp]:
  "fill_missing L (unhookRequire this w) fs cov = fill_missing L w fs cov"
  by (rule fill_missing_cong) simp_all

lemma emit_reports_success:
  assumes ok: "emit_reports L this cov w = (Inr (), w')"
  shows "\<exists>dir rs.
     path_join_js L (Str (cr_testsRoot this)) (member (cr_options this) ''relativeCoverageDir'') = Inr dir \<and>
     map (iReports_create L) (reportTypes (cr_options this)) = map Inr rs \<and>
     path_dirname L (fs_norm w (coverageFile L (cr_options this) (pid w) dir)) \<in> dirs w' \<and>
     fs_norm w (coverageFile L (cr_options this) (pid w) dir) \<notin> dirs w' \<and>
     w' = w\<lparr>
            dirs := (if existsSync w dir then dirs w else insert (fs_norm w dir) (dirs w)),
            files := (files w)(fs_norm w (coverageFile L (cr_options this) (pid w) dir) \<mapsto> JSON_stringify L cov),
            rendered := rendered w @ map (\<lambda>r. (r, dir, transformCoverage L cov)) rs\<rparr>"
proof -
  from ok obtain dir where
    dir: "path_join_js L (Str (cr_testsRoot this)) (member (cr_options this) ''relativeCoverageDir'') = Inr dir"
    by (auto simp: emit_reports_def split: sum.splits)
  from ok dir obtain w1 where mk: "mkDirIfExists L dir w = Inr w1"
    by (auto simp: emit_reports_def split: sum.splits)
  let ?cf = "coverageFile L (cr_options this) (pid w1) dir"
  from ok dir mk obtain w2 where wr: "writeFileSync L ?cf (JSON_stringify L cov) w1 = Inr w2"
    by (auto simp: emit_reports_def split: sum.splits)
  from ok dir mk wr have
    vis: "visit_reports L (transformCoverage L cov) dir (reportTypes (cr_options this)) w2 = (Inr (), w')"
    by (simp add: emit_reports_def)
  from mk have w1: "w1 = w\<lparr>dirs := (if existsSync w dir then dirs w else insert (fs_norm w dir) (dirs w))\<rparr>"
    by (auto simp: mkDirIfExists_def mkdirSync_def split: if_splits)
  then have same: "pid w1 = pid w" "fs_norm w1 = fs_norm w"
    by (simp_all add: fs_norm_def fun_eq_iff)
  from wr have w2: "w2 = w1\<lparr>files := (files w1)(fs_norm w1 ?cf \<mapsto> JSON_stringify L cov)\<rparr>"
    and notdir: "fs_norm w1 ?cf \<notin> dirs w1" and parent: "path_dirname L (fs_norm w1 ?cf) \<in> dirs w1"
    by (auto simp: writeFileSync_def split: if_splits)
  from vis obtain rs where
    rs: "map (iReports_create L) (reportTypes (cr_options this)) = map Inr rs"
    and w': "w' = w2\<lparr>rendered := rendered w2 @ map (\<lambda>r. (r, dir, transformCoverage L cov)) rs\<rparr>"
    by (auto simp: visit_reports_success)
  from w' w2 have "dirs w' = dirs w1" by simp
  with notdir parent same have "path_dirname L (fs_norm w (coverageFile L (cr_options this) (pid w) dir)) \<in> dirs w'"
    and "fs_norm w (coverageFile L (cr_options this) (pid w) dir) \<notin> dirs w'"
    by simp_all
  moreover from w' w2 w1 same have "w' = w\<lparr>
            dirs := (if existsSync w dir then dirs w else insert (fs_norm w dir) (dirs w)),
            files := (files w)(fs_norm w (coverageFile L (cr_options this) (pid w) dir) \<mapsto> JSON_stringify L cov),
            rendered := rendered w @ map (\<lambda>r. (r, dir, transformCoverage L cov)) rs\<rparr>"
    by simp
  ultimately show ?thesis using dir rs by blast
qed

lemma reportCoverage_success:
  assumes ok: "reportCoverage L this w = (Inr (), w')"
    and tab: "globals w (cr_coverageVar this) = Some cov0" and ne: "cov0 \<noteq> []"
  shows "\<exists>cov. fill_missing L w (cr_files this) cov0 = (None, cov) \<and>
     emit_reports L this cov
       ((unhookRequire this w)\<lparr>globals := (globals w)(cr_coverageVar this \<mapsto> cov)\<rparr>) = (Inr (), w')"
  using ok tab ne
  by (cases "fill_missing L w (cr_files this) cov0")
     (auto simp: reportCoverage_def Let_def split: option.splits)



lemma unhookRequire_again:
  assumes "hooks w1 = hooks (unhookRequire this w)"
  shows "unhookRequire this w1 = w1"
proof (cases "cr_hook this < length (hooks w)")
  case True
  with assms have len: "cr_hook this < length (hooks w1)"
    and nth: "hooks w1 ! cr_hook this = (fst (hooks w ! cr_hook this), True)"
    by (simp_all add: unhookRequire_def)
  then have "(hooks w1)[cr_hook this := (fst (hooks w1 ! cr_hook this), True)] = hooks w1"
    by (simp add: list_update_same_conv)
  with len show ?thesis by (simp add: unhookRequire_def)
next
  case False
  with assms show ?thesis by (simp add: unhookRequire_def)
qed

lemma fill_missing_complete:
  assumes "fill_missing L w fs cov0 = (None, cov)"
  shows "fill_missing L w' fs cov = (None, cov)"
proof (rule fill_missing_present, rule ballI)
  fix f assume "f \<in> set fs"
  with fill_missing_keys [OF assms] have "f \<in> fst ` set cov" by simp
  then show "map_of cov f \<noteq> None" by (simp add: map_of_eq_None_iff)
qed

text \<open>
  The keys of the counter table after a report that went through: those it had at exit
  and every path of \<^verbatim>\<open>matchFn.files\<close>, each once.
\<close>

lemma report_table_keys:
  assumes "reportCoverage L this w = (Inr (), w')"
    and "globals w (cr_coverageVar this) = Some cov0" and "cov0 \<noteq> []"
  shows "\<exists>cov. globals w' (cr_coverageVar this) = Some cov \<and>
           fst ` set cov = fst ` set cov0 \<union> set (cr_files this) \<and>
           (distinct (map fst cov0) \<longrightarrow> distinct (map fst cov))"
proof -
  from reportCoverage_success [OF assms] obtain cov where
    fm: "fill_missing L w (cr_files this) cov0 = (None, cov)" and
    em: "emit_reports L this cov
           ((unhookRequire this w)\<lparr>globals := (globals w)(cr_coverageVar this \<mapsto> cov)\<rparr>) = (Inr (), w')"
    by blast
  from emit_reports_success [OF em] have "globals w' (cr_coverageVar this) = Some cov"
    by auto
  moreover from fm have "fst ` set cov = fst ` set cov0 \<union> set (cr_files this)"
    by (rule fill_missing_keys)
  moreover from fm fill_missing_distinct [of cov0 L w "cr_files this"]
  have "distinct (map fst cov0) \<longrightarrow> distinct (map fst cov)" by simp
  ultimately show ?thesis by blast
qed

text \<open>
  The table that \<^verbatim>\<open>reportCoverage\<close> leaves, whether or not the snapshot and the reports
  are written afterwards: the one the loop over \<^verbatim>\<open>matchFn.files\<close> ends with. The loop
  runs to its end when every path it has to add can be read and instrumented.
\<close>

lemma visit_reports_globals:
  "globals (snd (visit_reports L m dir ts w)) = globals w"
  by (induction ts arbitrary: w) (simp_all split: sum.splits)

lemma emit_reports_globals:
  "globals (snd (emit_reports L this cov w)) = globals w"
  by (auto simp: emit_reports_def Let_def mkDirIfExists_def mkdirSync_def writeFileSync_def
        visit_reports_globals split: sum.splits if_splits)

lemma fill_missing_completes:
  assumes "\<forall>g \<in> set fs. map_of cov g = None \<longrightarrow>
             (\<exists>code instrumented fc. readFileSync w g = Inr code \<and>
                transformer L w code g = Inr (instrumented, fc))"
  shows "fst (fill_missing L w fs cov) = None"
  using assms
proof (induction fs arbitrary: cov)
  case Nil
  show ?case by simp
next
  case (Cons f rest)
  show ?case
  proof (cases "map_of cov f")
    case (Some old)
    with Cons.prems Cons.IH [of cov] show ?thesis by simp
  next
    case None
    with Cons.prems obtain code instrumented fc where
      rd: "readFileSync w f = Inr code" and
      tr: "transformer L w code f = Inr (instrumented, fc)"
      by auto
    have "fst (fill_missing L w rest (AList.update f (reset_statements fc) cov)) = None"
    proof (rule Cons.IH, rule ballI, rule impI)
      fix g assume g: "g \<in> set rest"
        and "map_of (AList.update f (reset_statements fc) cov) g = None"
      then have "map_of cov g = None"
        by (simp add: AList.update_conv' split: if_splits)
      with Cons.prems g show "\<exists>code instrumented fc. readFileSync w g = Inr code \<and>
          transformer L w code g = Inr (instrumented, fc)" by simp
    qed
    with None rd tr show ?thesis by simp
  qed
qed

lemma reportCoverage_table:
  assumes "globals w (cr_coverageVar this) = Some cov0" and "cov0 \<noteq> []"
  shows "globals (snd (reportCoverage L this w)) (cr_coverageVar this) =
           Some (snd (fill_missing L w (cr_files this) cov0))"
  using assms
  by (cases "fill_missing L w (cr_files this) cov0"; cases "fst (fill_missing L w (cr_files this) cov0)")
     (simp_all add: reportCoverage_def Let_def emit_reports_globals)

section \<open>What running the tests leaves alone\<close>

lemma register_coverage_frame [simp]:
  "files (register_coverage E f w entry) = files w"
  "dirs (register_coverage E f w entry) = dirs w"
  "hooks (register_coverage E f w entry) = hooks w"
  "exit_listeners (register_coverage E f w entry) = exit_listeners w"
  by (simp_all add: register_coverage_def Let_def)

lemma foldl_register_coverage_frame [simp]:
  "files (foldl (register_coverage E f) w entries) = files w"
  "dirs (foldl (register_coverage E f) w entries) = dirs w"
  "hooks (foldl (register_coverage E f) w entries) = hooks w"
  "exit_listeners (foldl (register_coverage E f) w entries) = exit_listeners w"
  by (induction entries arbitrary: w) simp_all

lemma require_module_frame:
  "require_module L E f w = Inr w' \<Longrightarrow>
     files w' = files w \<and> dirs w' = dirs w \<and> hooks w' = hooks w \<and>
     exit_listeners w' = exit_listeners w"
  by (auto simp: require_module_def Let_def split: if_splits sum.splits)

lemma require_all_frame:
  "files (snd (require_all L E fs w)) = files w \<and> dirs (snd (require_all L E fs w)) = dirs w \<and>
   hooks (snd (require_all L E fs w)) = hooks w \<and>
   exit_listeners (snd (require_all L E fs w)) = exit_listeners w"
proof (induction fs arbitrary: w)
  case Nil
  show ?case by simp
next
  case (Cons f fs)
  show ?case
  proof (cases "require_module L E f w")
    case (Inl err)
    then show ?thesis by simp
  next
    case (Inr w1)
    with Cons.IH [of w1] require_module_frame [OF Inr] show ?thesis by simp
  qed
qed

lemma mocha_run_frame:
  "files (snd (mocha_run L E w)) = files w \<and> dirs (snd (mocha_run L E w)) = dirs w \<and>
   hooks (snd (mocha_run L E w)) = hooks w \<and>
   exit_listeners (snd (mocha_run L E w)) = exit_listeners w"
proof -
  let ?w = "w\<lparr>mocha_runs := Suc (mocha_runs w)\<rparr>"
  let ?r = "require_all L E (mocha_files ?w @ requires E) ?w"
  have "snd (mocha_run L E w) = snd ?r"
    by (cases ?r; cases "fst ?r") (auto simp: mocha_run_def Let_def)
  with require_all_frame [of L E "mocha_files ?w @ requires E" ?w] show ?thesis by simp
qed

lemma run_tests_frame:
  "files (run_tests L E testsRoot w) = files w \<and> dirs (run_tests L E testsRoot w) = dirs w \<and>
   hooks (run_tests L E testsRoot w) = hooks w \<and>
   exit_listeners (run_tests L E testsRoot w) = exit_listeners w"
proof (cases "glob_sync L (files w) ''**/**.test.js'' testsRoot Undefined")
  case (Inl err)
  then show ?thesis by (simp add: run_tests_def)
next
  case (Inr fs)
  let ?w = "w\<lparr>mocha_files := mocha_files w @ map (path_join L testsRoot) fs\<rparr>"
  from mocha_run_frame [of L E ?w] Inr show ?thesis
    by (cases "mocha_run L E ?w"; cases "fst (mocha_run L E ?w)")
       (auto simp: run_tests_def Let_def)
qed

section \<open>The counter table after a test run on a platform other than win32\<close>

lemma load_through_hook_entries:
  "entry \<in> set (snd (foldl (load_through_hook L w f) acc hs)) \<Longrightarrow>
     entry \<in> set (snd acc) \<or>
     (\<exists>h \<in> set hs. \<not> snd h \<and> matchFn w (cr_fileMap (fst h)) f \<and>
        fst entry = cr_coverageVar (fst h))"
proof (induction hs arbitrary: acc)
  case Nil
  then show ?case by simp
next
  case (Cons h hs)
  from Cons.prems have "entry \<in> set (snd (foldl (load_through_hook L w f)
      (load_through_hook L w f acc h) hs))" by simp
  from Cons.IH [OF this] show ?case
    by (auto simp: load_through_hook_def split: if_splits sum.splits prod.splits)
qed

lemma matchFn_posix:
  "\<not> win32 w \<Longrightarrow> matchFn w fileMap f \<Longrightarrow> f \<in> fst ` set fileMap"
  by (auto simp: matchFn_def split: option.splits dest: map_of_SomeD intro: rev_image_eqI)

lemma register_coverage_win32 [simp]:
  "win32 (register_coverage E f w entry) = win32 w"
  "win32 (foldl (register_coverage E f) w entries) = win32 w"
  by (induction entries arbitrary: w) (simp_all add: register_coverage_def Let_def)

lemma register_coverage_keys:
  assumes "keys_within S var w" and "fst entry = var \<Longrightarrow> f \<in> S"
  shows "keys_within S var (register_coverage E f w entry)"
proof (cases "fst entry = var")
  case False
  with assms(1) show ?thesis
    by (simp add: keys_within_def register_coverage_def Let_def)
next
  case True
  let ?cov = "case globals w var of None \<Rightarrow> [] | Some cov \<Rightarrow> cov"
  from assms(1) have "fst ` set ?cov \<subseteq> S" "distinct (map fst ?cov)"
    by (simp_all add: keys_within_def split: option.splits)
  with assms(2) True have "fst ` set (AList.update f v ?cov) \<subseteq> S"
    "distinct (map fst (AList.update f v ?cov))" for v
    by (simp_all add: AList.dom_update AList.distinct_update)
  with True show ?thesis
    by (simp add: keys_within_def register_coverage_def Let_def)
qed

lemma foldl_register_coverage_keys:
  assumes "keys_within S var w" and "\<And>entry. entry \<in> set entries \<Longrightarrow> fst entry = var \<Longrightarrow> f \<in> S"
  shows "keys_within S var (foldl (register_coverage E f) w entries)"
  using assms
proof (induction entries arbitrary: w)
  case Nil
  then show ?case by simp
next
  case (Cons e es)
  from Cons.prems(1) Cons.prems(2) [of e] have "keys_within S var (register_coverage E f w e)"
    by (intro register_coverage_keys) simp_all
  then have "keys_within S var (foldl (register_coverage E f) (register_coverage E f w e) es)"
  proof (rule Cons.IH)
    fix entry assume "entry \<in> set es" and "fst entry = var"
    with Cons.prems(2) [of entry] show "f \<in> S" by simp
  qed
  then show ?case by simp
qed

lemma keys_within_cong:
  "globals w' = globals w \<Longrightarrow> keys_within S var w' = keys_within S var w"
  by (simp add: keys_within_def)

lemma require_module_keys:
  assumes "keys_within S var w" and "hooks_within S var w"
    and "require_module L E f w = Inr w'"
  shows "keys_within S var w' \<and> hooks_within S var w'"
proof (cases "f \<in> module_cache w")
  case True
  with assms show ?thesis by (simp add: require_module_def)
next
  case False
  with assms(3) obtain code where
    w': "w' = (foldl (register_coverage E f) w
                (snd (foldl (load_through_hook L w f) (code, []) (hooks w))))
              \<lparr>module_cache := insert f (module_cache
                 (foldl (register_coverage E f) w
                   (snd (foldl (load_through_hook L w f) (code, []) (hooks w)))))\<rparr>"
    by (auto simp: require_module_def Let_def split: sum.splits)
  let ?entries = "snd (foldl (load_through_hook L w f) (code, []) (hooks w))"
  have "keys_within S var (foldl (register_coverage E f) w ?entries)"
  proof (rule foldl_register_coverage_keys [OF assms(1)])
    fix entry assume "entry \<in> set ?entries" and var: "fst entry = var"
    from load_through_hook_entries [OF this(1)] obtain h where
      "h \<in> set (hooks w)" "matchFn w (cr_fileMap (fst h)) f" "fst entry = cr_coverageVar (fst h)"
      by auto
    with assms(2) var show "f \<in> S"
      by (auto simp: hooks_within_def dest: matchFn_posix)
  qed
  moreover have "hooks w' = hooks w" "win32 w' = win32 w"
    by (simp_all add: w')
  ultimately show ?thesis using assms(2)
    by (simp add: hooks_within_def w' keys_within_def)
qed

lemma require_all_keys:
  assumes "keys_within S var w" and "hooks_within S var w"
  shows "keys_within S var (snd (require_all L E fs w)) \<and>
         hooks_within S var (snd (require_all L E fs w))"
  using assms
proof (induction fs arbitrary: w)
  case Nil
  then show ?case by simp
next
  case (Cons f fs)
  show ?case
  proof (cases "require_module L E f w")
    case (Inl err)
    with Cons.prems show ?thesis by simp
  next
    case (Inr w1)
    from require_module_keys [OF Cons.prems Inr] Cons.IH [of w1] Inr show ?thesis by simp
  qed
qed

lemma run_tests_keys:
  assumes "keys_within S var w" and "hooks_within S var w"
  shows "keys_within S var (run_tests L E testsRoot w)"
proof (cases "glob_sync L (files w) ''**/**.test.js'' testsRoot Undefined")
  case (Inl err)
  with assms(1) show ?thesis by (simp add: run_tests_def keys_within_def)
next
  case (Inr fs)
  let ?w = "w\<lparr>mocha_files := mocha_files w @ map (path_join L testsRoot) fs,
               mocha_runs := Suc (mocha_runs w)\<rparr>"
  let ?r = "require_all L E (mocha_files ?w @ requires E) ?w"
  from assms have "keys_within S var ?w" "hooks_within S var ?w"
    by (simp_all add: keys_within_def hooks_within_def)
  then have "keys_within S var (snd ?r)" by (simp add: require_all_keys)
  moreover have "globals (run_tests L E testsRoot w) = globals (snd ?r)"
    using Inr by (cases ?r; cases "fst ?r"; cases "mocha_result E")
      (auto simp: run_tests_def mocha_run_def Let_def)
  ultimately show ?thesis by (simp add: keys_within_def)
qed

lemma setupCoverage_keys:
  assumes "setupCoverage L this w = (Inr armed, wa)" and "\<not> win32 w" and "hooks w = []"
  shows "keys_within (set (cr_files armed)) (cr_coverageVar armed) wa \<and>
         hooks_within (set (cr_files armed)) (cr_coverageVar armed) wa"
  using assms
  by (force simp: setupCoverage_def Let_def keys_within_def hooks_within_def split: sum.splits)

text \<open>
  On a platform other than win32, in a process with no require hook of an earlier run:
  when the tests have run after \<^verbatim>\<open>setupCoverage\<close> and the report goes through, the counter
  table has exactly the paths of \<^verbatim>\<open>matchFn.files\<close> as its keys, each once.
\<close>

lemma posix_one_entry_per_source_file:
  assumes "setupCoverage L this w = (Inr armed, wa)" and "\<not> win32 w" and "hooks w = []"
    and "globals (run_tests L E testsRoot wa) (cr_coverageVar armed) = Some cov0"
    and "cov0 \<noteq> []"
    and "reportCoverage L armed (run_tests L E testsRoot wa) = (Inr (), w')"
  shows "\<exists>cov. globals w' (cr_coverageVar armed) = Some cov \<and>
           fst ` set cov = set (cr_files armed) \<and> distinct (map fst cov)"
proof -
  from setupCoverage_keys [OF assms(1-3)]
  have "keys_within (set (cr_files armed)) (cr_coverageVar armed) (run_tests L E testsRoot wa)"
    by (simp add: run_tests_keys)
  with assms(4) have sub: "fst ` set cov0 \<subseteq> set (cr_files armed)"
    and dist: "distinct (map fst cov0)"
    by (simp_all add: keys_within_def)
  from sub have "fst ` set cov0 \<union> set (cr_files armed) = set (cr_files armed)"
    by (rule Un_absorb1)
  with report_table_keys [OF assms(6,4,5)] dist show ?thesis by auto
qed

section \<open>The worked example, step by step\<close>

lemmas example_simps =
  example_libs_def example_world_def example_tests_def example_parse_def
  example_dirname_def example_instrument_def example_create_def example_options_def
  example_options_no_reports_def example_files_def example_runner_def example_table_def
  example_run_world_def example_armed_world_def example_zero_def example_final_table_def
  example_exit_world_def

lemma example_lower_char:
  "lower_char CHR ''A'' = CHR ''a''"
  "lower_char CHR ''/'' = CHR ''/''"
  "lower_char CHR ''.'' = CHR ''.''"
  "lower_char CHR ''p'' = CHR ''p''"
  "lower_char CHR ''c'' = CHR ''c''"
  "lower_char CHR ''o'' = CHR ''o''"
  "lower_char CHR ''v'' = CHR ''v''"
  "lower_char CHR ''e'' = CHR ''e''"
  "lower_char CHR ''r'' = CHR ''r''"
  "lower_char CHR ''f'' = CHR ''f''"
  "lower_char CHR ''i'' = CHR ''i''"
  "lower_char CHR ''g'' = CHR ''g''"
  "lower_char CHR ''j'' = CHR ''j''"
  "lower_char CHR ''s'' = CHR ''s''"
  "lower_char CHR ''n'' = CHR ''n''"
  "lower_char CHR ''a'' = CHR ''a''"
  "lower_char CHR ''t'' = CHR ''t''"
  "lower_char CHR ''b'' = CHR ''b''"
  "lower_char CHR ''m'' = CHR ''m''"
  by (simp_all add: lower_char_def)

lemma example_lower:
  "toLocaleLowerCase ''/p/coverconfig.json'' = ''/p/coverconfig.json''"
  "toLocaleLowerCase ''/p/a.test.js'' = ''/p/a.test.js''"
  "toLocaleLowerCase ''/p/src/A.js'' = ''/p/src/a.js''"
  "toLocaleLowerCase ''/p/src/A.js.map'' = ''/p/src/a.js.map''"
  "toLocaleLowerCase ''/p/src/a.js'' = ''/p/src/a.js''"
  "toLocaleLowerCase ''/p/src/a.js.map'' = ''/p/src/a.js.map''"
  "toLocaleLowerCase ''/p/src/b.js'' = ''/p/src/b.js''"
  "toLocaleLowerCase ''/p/src/b.js.map'' = ''/p/src/b.js.map''"
  "toLocaleLowerCase ''/p/coverage'' = ''/p/coverage''"
  "toLocaleLowerCase ''/p/coverage/coverage.json'' = ''/p/coverage/coverage.json''"
  by (simp_all add: toLocaleLowerCase_def example_lower_char)

lemmas fs_simps =
  existsSync_def readFileSync_def mkdirSync_def writeFileSync_def mkDirIfExists_def fs_norm_def
  example_lower

lemmas report_simps =
  reportCoverage_def unhookRequire_def emit_reports_def coverageFile_def reportTypes_def
  transformer_def read_source_map_def reset_statements_def

lemmas require_simps =
  require_module_def load_through_hook_def matchFn_def register_coverage_def transformer_def
  read_source_map_def

lemma example_coverageVar: "coverageVar 1700000000000 = ''$$cov_1700000000000$$''"
  by (simp add: coverageVar_def string_of_nat.simps digit_char_def)

lemma example_readCoverOptions:
  "readCoverOptions example_libs ''/p'' (example_world windows ''coverage on'') = Inr example_options"
  by (cases windows) (simp_all add: readCoverOptions_def get_prop_def fs_simps example_simps)

lemma example_setup:
  "setupCoverage example_libs
     \<lparr>cr_options = example_options, cr_testsRoot = ''/p'',
      cr_coverageVar = ''$$cov_1700000000000$$''\<rparr>
     (example_world windows ''coverage on'') =
   (Inr (example_runner windows example_options), example_armed_world windows example_options)"
  by (cases windows)
     (simp_all add: setupCoverage_def add_source_def Let_def example_lower example_simps)

lemma example_require_test:
  "require_module example_libs example_tests ''/p/a.test.js''
     ((example_armed_world windows example_options)
        \<lparr>mocha_files := [''/p/a.test.js''], mocha_runs := Suc 0\<rparr>) =
   Inr ((example_armed_world windows example_options)
          \<lparr>mocha_files := [''/p/a.test.js''], mocha_runs := Suc 0,
           module_cache := {''/p/a.test.js''}\<rparr>)"
  by (cases windows) (simp_all add: require_simps fs_simps example_simps)

lemma example_require_source:
  "require_module example_libs example_tests ''/p/src/A.js''
     ((example_armed_world windows example_options)
        \<lparr>mocha_files := [''/p/a.test.js''], mocha_runs := Suc 0,
         module_cache := {''/p/a.test.js''}\<rparr>) =
   Inr ((example_armed_world windows example_options)
          \<lparr>mocha_files := [''/p/a.test.js''], mocha_runs := Suc 0,
           module_cache := {''/p/src/A.js'', ''/p/a.test.js''},
           globals := [''$$cov_1700000000000$$'' \<mapsto> example_table]\<rparr>)"
  by (cases windows) (simp_all add: require_simps fs_simps example_simps)

lemma example_run_tests:
  "run_tests example_libs example_tests ''/p'' (example_armed_world windows example_options) =
   example_run_world windows example_options"
proof -
  let ?armed = "example_armed_world windows example_options"
  have glob: "glob_sync example_libs (files ?armed) ''**/**.test.js'' ''/p'' Undefined =
      Inr [''a.test.js'']"
    by (simp add: example_libs_def)
  have join: "path_join example_libs ''/p'' ''a.test.js'' = ''/p/a.test.js''"
    by (simp add: example_libs_def)
  have env: "requires example_tests = [''/p/src/A.js'']" "mocha_result example_tests = Inr 0"
    by (simp_all add: example_tests_def)
  have start: "mocha_files ?armed = []" "mocha_runs ?armed = 0" "callbacks ?armed = []"
    by (simp_all add: example_armed_world_def example_world_def)
  have "mocha_run example_libs example_tests (?armed\<lparr>mocha_files := [''/p/a.test.js'']\<rparr>) =
        (Inr 0, ?armed
          \<lparr>mocha_files := [''/p/a.test.js''], mocha_runs := Suc 0,
           module_cache := {''/p/src/A.js'', ''/p/a.test.js''},
           globals := [''$$cov_1700000000000$$'' \<mapsto> example_table]\<rparr>)"
    by (simp add: mocha_run_def Let_def env start example_require_test example_require_source)
  then show ?thesis
    by (simp add: run_tests_def glob join start)
       (simp add: example_armed_world_def example_run_world_def example_world_def)
qed

lemma example_run:
  "run example_libs example_tests ''/p'' (example_world windows ''coverage on'') =
   (Inr (), example_run_world windows example_options)"
proof -
  have opts: "truthy example_options" "truthy (member example_options ''enabled'')"
    "truthy (member example_options ''relativeSourcePath'')"
    by (simp_all add: example_options_def)
  have clock: "clock (example_world windows ''coverage on'') = 1700000000000"
    by (simp add: example_world_def)
  show ?thesis
    by (simp add: run_def example_readCoverOptions opts CoverageRunner_def clock
          example_coverageVar example_setup example_run_tests)
qed

lemma example_report_win32:
  "reportCoverage example_libs (example_runner True example_options)
     (example_run_world True example_options) =
   (Inr (), example_exit_world True example_options [''lcovonly''])"
  by (simp add: report_simps fs_simps example_simps example_stringify_def)

lemma example_report:
  "reportCoverage example_libs (example_runner False example_options)
     (example_run_world False example_options) =
   (Inr (), example_exit_world False example_options [''lcovonly''])"
  by (simp add: report_simps fs_simps example_simps example_stringify_def)

lemma example_report_no_reports:
  "reportCoverage example_libs (example_runner False example_options_no_reports)
     (example_run_world False example_options_no_reports) =
   (Inr (), example_exit_world False example_options_no_reports [])"
  by (simp add: report_simps fs_simps example_simps example_stringify_def)



lemma example_table_facts:
  "globals (example_run_world windows options) (cr_coverageVar (example_runner windows options)) =
     Some example_table"
  "example_table \<noteq> []"
  "''/p/src/b.js'' \<in> set (cr_files (example_runner windows options))"
  "map_of example_table ''/p/src/b.js'' = None"
  by (simp_all add: example_run_world_def example_runner_def example_table_def)

section \<open>The claims\<close>

subsection \<open>C1: one entry per source file, none for other files\<close>

text \<open>
  Claim C1 says that a report with a non-empty counter table ends with exactly one entry
  for each path of the source file set and no entry for any other file, whichever files
  the tests loaded. The code does not keep this on win32. There \<^verbatim>\<open>matchFn\<close> lower-cases the
  name it is asked about, so the hook instruments \<^verbatim>\<open>/p/src/A.js\<close>, but the transformer
  hands the name as required to the instrumenter and the counters are kept under
  \<^verbatim>\<open>/p/src/A.js\<close>. At exit the loop looks for the lower-cased \<^verbatim>\<open>/p/src/a.js\<close>, does not find
  it and adds a second, all-zero entry for the same file. The example run on win32: the
  source file set is \<^verbatim>\<open>a.js\<close>, \<^verbatim>\<open>b.js\<close>, the exit listener returns normally, and the table
  has three entries, one of them under a name outside the set. On the other platforms the
  claim holds for the first run of a process (\<open>posix_one_entry_per_source_file\<close>), and on
  every platform the table ends with its keys at exit and the paths of the set
  (\<open>report_table_keys\<close>).
\<close>

theorem win32_loaded_file_listed_twice:
  "map cr_files (exit_listeners (snd (run example_libs example_tests ''/p''
      (example_world True ''coverage on'')))) = [[''/p/src/a.js'', ''/p/src/b.js'']] \<and>
   fst (process_exit example_libs (snd (run example_libs example_tests ''/p''
      (example_world True ''coverage on'')))) = Inr () \<and>
   map_option (map fst) (globals (snd (process_exit example_libs
      (snd (run example_libs example_tests ''/p'' (example_world True ''coverage on'')))))
      ''$$cov_1700000000000$$'') = Some [''/p/src/A.js'', ''/p/src/a.js'', ''/p/src/b.js'']"
proof -
  have listeners: "exit_listeners (example_run_world True example_options) =
      [example_runner True example_options]"
    by (simp add: example_run_world_def)
  have exit: "process_exit example_libs (example_run_world True example_options) =
      (Inr (), example_exit_world True example_options [''lcovonly''])"
    by (simp add: process_exit_def listeners example_report_win32)
  have "map_option (map fst) (globals (example_exit_world True example_options [''lcovonly''])
      ''$$cov_1700000000000$$'') = Some [''/p/src/A.js'', ''/p/src/a.js'', ''/p/src/b.js'']"
    by (simp add: example_exit_world_def example_final_table_def example_table_def example_zero_def)
  moreover have "cr_files (example_runner True example_options) = [''/p/src/a.js'', ''/p/src/b.js'']"
    by (simp add: example_runner_def)
  ultimately show ?thesis by (simp add: example_run listeners exit)
qed

subsection \<open>C2: a file that was never loaded gets an entry with zero statement counters\<close>

text \<open>
  Claim C2 says that every path of the source file set that the counter table lacks at
  report time ends with a zeroed entry. With an empty table the code adds nothing: lines
  114 to 117 return before the loop. Counterexample: the example right after
  \<^verbatim>\<open>setupCoverage\<close>, before any file was loaded; \<^verbatim>\<open>b.js\<close> is in the set and not in the
  table, \<^verbatim>\<open>reportCoverage\<close> returns normally and the table is still empty.
\<close>

theorem empty_table_leaves_never_loaded_files_out:
  "''/p/src/b.js'' \<in> set (cr_files (example_runner False example_options)) \<and>
   globals (example_armed_world False example_options)
     (cr_coverageVar (example_runner False example_options)) = Some [] \<and>
   fst (reportCoverage example_libs (example_runner False example_options)
          (example_armed_world False example_options)) = Inr () \<and>
   globals (snd (reportCoverage example_libs (example_runner False example_options)
          (example_armed_world False example_options)))
     (cr_coverageVar (example_runner False example_options)) = Some []"
  by (simp add: reportCoverage_def Let_def example_armed_world_def example_runner_def)

text \<open>
  Claim C2 as amended: when the counter table is not empty at report time and every path
  of \<^verbatim>\<open>matchFn.files\<close> that it lacks can be read and instrumented, then each such path is
  read, passed through the transformer, and entered in the table with the coverage object
  the instrumenter produced for it, all statement counters set to zero and the statement
  keys kept. This is the table \<^verbatim>\<open>reportCoverage\<close> leaves whether or not the snapshot and
  the reports are written afterwards.
\<close>

theorem never_loaded_file_gets_zero_entry:
  assumes "globals w (cr_coverageVar this) = Some cov0" and "cov0 \<noteq> []"
    and "\<forall>g \<in> set (cr_files this). map_of cov0 g = None \<longrightarrow>
           (\<exists>code instrumented fc. readFileSync w g = Inr code \<and>
              transformer L w code g = Inr (instrumented, fc))"
    and "f \<in> set (cr_files this)" and "map_of cov0 f = None"
  shows "\<exists>code instrumented fc cov.
           readFileSync w f = Inr code \<and>
           transformer L w code f = Inr (instrumented, fc) \<and>
           globals (snd (reportCoverage L this w)) (cr_coverageVar this) = Some cov \<and>
           map_of cov f = Some (reset_statements fc) \<and>
           map fst (fc_s (reset_statements fc)) = map fst (fc_s fc) \<and>
           map snd (fc_s (reset_statements fc)) = replicate (length (fc_s fc)) 0"
proof -
  let ?r = "fill_missing L w (cr_files this) cov0"
  from fill_missing_completes [OF assms(3)] have fm: "?r = (None, snd ?r)"
    by (simp add: prod_eq_iff)
  from fill_missing_absent [OF fm assms(4,5)] obtain code instrumented fc where
    "readFileSync w f = Inr code" "transformer L w code f = Inr (instrumented, fc)"
    "map_of (snd ?r) f = Some (reset_statements fc)" by blast
  moreover have "map snd (fc_s (reset_statements fc)) = replicate (length (fc_s fc)) 0"
    by (simp add: reset_statements_def case_prod_unfold comp_def map_replicate_const)
  ultimately show ?thesis
    using reportCoverage_table [OF assms(1,2)] reset_statements_keys by blast
qed

text \<open>Witness for C2 as amended: \<^verbatim>\<open>b.js\<close> in the example, which the tests never require.\<close>

theorem never_loaded_file_gets_zero_entry_witness:
  "\<exists>code instrumented fc cov.
     readFileSync (example_run_world False example_options) ''/p/src/b.js'' = Inr code \<and>
     transformer example_libs (example_run_world False example_options) code ''/p/src/b.js'' =
       Inr (instrumented, fc) \<and>
     globals (snd (reportCoverage example_libs (example_runner False example_options)
        (example_run_world False example_options)))
       (cr_coverageVar (example_runner False example_options)) = Some cov \<and>
     map_of cov ''/p/src/b.js'' = Some (reset_statements fc) \<and>
     map fst (fc_s (reset_statements fc)) = map fst (fc_s fc) \<and>
     map snd (fc_s (reset_statements fc)) = replicate (length (fc_s fc)) 0"
proof -
  have readable: "\<forall>g \<in> set (cr_files (example_runner False example_options)).
      map_of example_table g = None \<longrightarrow>
      (\<exists>code instrumented fc.
         readFileSync (example_run_world False example_options) g = Inr code \<and>
         transformer example_libs (example_run_world False example_options) code g =
           Inr (instrumented, fc))"
    by (simp add: example_runner_def example_table_def readFileSync_def fs_norm_def
          transformer_def example_run_world_def example_files_def example_libs_def
          example_instrument_def)
  show ?thesis
    by (rule never_loaded_file_gets_zero_entry
          [OF example_table_facts(1,2) readable example_table_facts(3,4)])
qed

subsection \<open>C3: enabled without relativeSourcePath\<close>

text \<open>
  Claim C3: when the options have \<^verbatim>\<open>enabled\<close> true and no \<^verbatim>\<open>relativeSourcePath\<close>, the
  constructor calls the completion callback with the error message, \<^verbatim>\<open>setupCoverage\<close> then
  throws at \<^verbatim>\<open>path.join(testsRoot, undefined)\<close>, and \<^verbatim>\<open>run\<close> ends there: the only change to
  the process is the callback call, so no hook, no exit listener and no counter table
  exist, no test file was globbed or added to mocha, and mocha did not run.
\<close>

theorem missing_relativeSourcePath_stops_run:
  assumes "readCoverOptions L testsRoot w = Inr (Obj kvs)"
    and "map_of kvs ''enabled'' = Some (Bool True)"
    and "map_of kvs ''relativeSourcePath'' = None"
  shows "run L E testsRoot w =
           (Inl TypeError,
            w\<lparr>callbacks := callbacks w @
                [Clb_message ''Error - relativeSourcePath must be defined for code coverage to work'']\<rparr>)"
  using assms by (simp add: run_def CoverageRunner_def setupCoverage_def Let_def)

text \<open>Witness for C3: the example with a config file that only says \<^verbatim>\<open>enabled\<close>.\<close>

theorem missing_relativeSourcePath_stops_run_witness:
  "run example_libs example_tests ''/p'' (example_world False ''no source path'') =
     (Inl TypeError,
      (example_world False ''no source path'')
        \<lparr>callbacks := callbacks (example_world False ''no source path'') @
           [Clb_message ''Error - relativeSourcePath must be defined for code coverage to work'']\<rparr>)"
proof -
  have "readCoverOptions example_libs ''/p'' (example_world False ''no source path'') =
      Inr (Obj [(''enabled'', Bool True)])"
    by (simp add: readCoverOptions_def get_prop_def fs_simps example_simps)
  then show ?thesis
    by (rule missing_relativeSourcePath_stops_run) simp_all
qed

subsection \<open>C4: no coverage collected\<close>

text \<open>
  Claim C4: when the counter table is absent or empty at report time, \<^verbatim>\<open>reportCoverage\<close>
  returns normally after one line on \<^verbatim>\<open>console.error\<close>; no file is written, no directory
  made and no report rendered.
\<close>

theorem no_coverage_collected_is_not_fatal:
  assumes "globals w (cr_coverageVar this) = None \<or> globals w (cr_coverageVar this) = Some []"
  shows "fst (reportCoverage L this w) = Inr () \<and>
         stderr (snd (reportCoverage L this w)) = stderr w @ [no_coverage_message] \<and>
         files (snd (reportCoverage L this w)) = files w \<and>
         dirs (snd (reportCoverage L this w)) = dirs w \<and>
         rendered (snd (reportCoverage L this w)) = rendered w"
  using assms by (auto simp: reportCoverage_def Let_def)

text \<open>Witness for C4: the example right after \<^verbatim>\<open>setupCoverage\<close>, before any file was loaded.\<close>

theorem no_coverage_collected_is_not_fatal_witness:
  "fst (reportCoverage example_libs (example_runner False example_options)
          (example_armed_world False example_options)) = Inr () \<and>
   stderr (snd (reportCoverage example_libs (example_runner False example_options)
          (example_armed_world False example_options))) =
     stderr (example_armed_world False example_options) @ [no_coverage_message] \<and>
   files (snd (reportCoverage example_libs (example_runner False example_options)
          (example_armed_world False example_options))) =
     files (example_armed_world False example_options) \<and>
   dirs (snd (reportCoverage example_libs (example_runner False example_options)
          (example_armed_world False example_options))) =
     dirs (example_armed_world False example_options) \<and>
   rendered (snd (reportCoverage example_libs (example_runner False example_options)
          (example_armed_world False example_options))) =
     rendered (example_armed_world False example_options)"
proof -
  have "globals (example_armed_world False example_options)
      (cr_coverageVar (example_runner False example_options)) = Some []"
    by (simp add: example_armed_world_def example_runner_def)
  then show ?thesis
    by (intro no_coverage_collected_is_not_fatal disjI2)
qed

subsection \<open>C5: the reports rendered\<close>

text \<open>
  Claim C5 says that an empty or missing report list gives exactly one report of the
  default type. For an empty list the code renders nothing: line 150 tests
  \<^verbatim>\<open>instanceof Array\<close>, which an empty array passes. Counterexample: the example with
  \<^verbatim>\<open>reports: []\<close>; the report goes through and nothing is rendered.
\<close>

theorem empty_report_list_renders_nothing:
  "member (cr_options (example_runner False example_options_no_reports)) ''reports'' = Arr [] \<and>
   globals (example_run_world False example_options_no_reports)
     (cr_coverageVar (example_runner False example_options_no_reports)) = Some example_table \<and>
   reportCoverage example_libs (example_runner False example_options_no_reports)
     (example_run_world False example_options_no_reports) =
     (Inr (), example_exit_world False example_options_no_reports []) \<and>
   rendered (example_run_world False example_options_no_reports) = [] \<and>
   rendered (example_exit_world False example_options_no_reports []) = []"
  by (simp add: example_report_no_reports example_table_facts)
     (simp add: example_runner_def example_options_no_reports_def example_run_world_def
        example_exit_world_def)

text \<open>
  Claim C5 as amended: when the report goes through, it renders one report for each
  element of \<^verbatim>\<open>reports\<close> when that is an array (none for the empty array), in order, and the
  single report \<^verbatim>\<open>lcovonly\<close> when \<^verbatim>\<open>reports\<close> is missing or not an array; every report is
  rendered in the reporting directory from the translated coverage map.
\<close>

theorem one_report_per_type_or_lcovonly:
  assumes "reportCoverage L this w = (Inr (), w')"
    and "globals w (cr_coverageVar this) = Some cov0" and "cov0 \<noteq> []"
  shows "\<exists>cov dir rs.
           globals w' (cr_coverageVar this) = Some cov \<and>
           path_join_js L (Str (cr_testsRoot this))
             (member (cr_options this) ''relativeCoverageDir'') = Inr dir \<and>
           map (iReports_create L)
             (case member (cr_options this) ''reports'' of
                Arr types \<Rightarrow> types
              | other \<Rightarrow> [Str ''lcovonly'']) = map Inr rs \<and>
           rendered w' = rendered w @ map (\<lambda>r. (r, dir, transformCoverage L cov)) rs"
proof -
  from reportCoverage_success [OF assms] obtain cov where
    em: "emit_reports L this cov
           ((unhookRequire this w)\<lparr>globals := (globals w)(cr_coverageVar this \<mapsto> cov)\<rparr>) = (Inr (), w')"
    by blast
  from emit_reports_success [OF em] show ?thesis
    by (auto simp: reportTypes_def)
qed

text \<open>Witness for C5 as amended: the example, whose options have no \<^verbatim>\<open>reports\<close>.\<close>

theorem one_report_per_type_or_lcovonly_witness:
  "\<exists>cov dir rs.
     globals (example_exit_world False example_options [''lcovonly''])
       (cr_coverageVar (example_runner False example_options)) = Some cov \<and>
     path_join_js example_libs (Str (cr_testsRoot (example_runner False example_options)))
       (member (cr_options (example_runner False example_options)) ''relativeCoverageDir'') = Inr dir \<and>
     map (iReports_create example_libs)
       (case member (cr_options (example_runner False example_options)) ''reports'' of
          Arr types \<Rightarrow> types
        | other \<Rightarrow> [Str ''lcovonly'']) = map Inr rs \<and>
     rendered (example_exit_world False example_options [''lcovonly'']) =
       rendered (example_run_world False example_options) @
       map (\<lambda>r. (r, dir, transformCoverage example_libs cov)) rs"
  by (rule one_report_per_type_or_lcovonly [OF example_report example_table_facts(1,2)])

subsection \<open>C6: the key of the counter table\<close>

text \<open>
  Claim C6 says that any two runs in one process have distinct keys. The key is made of
  the clock reading in milliseconds and nothing else. Counterexample: a second runner
  constructed in the example after the first run, at the same clock reading, has the same
  key, and its \<^verbatim>\<open>setupCoverage\<close> replaces the table of the first run by the empty one.
\<close>

theorem same_millisecond_same_key:
  "cr_coverageVar (fst (CoverageRunner example_options ''/p'' (example_world False ''coverage on''))) =
   cr_coverageVar (fst (CoverageRunner example_options ''/p''
     (snd (run example_libs example_tests ''/p'' (example_world False ''coverage on''))))) \<and>
   globals (snd (run example_libs example_tests ''/p'' (example_world False ''coverage on'')))
     ''$$cov_1700000000000$$'' = Some example_table \<and>
   globals (snd (setupCoverage example_libs
       (fst (CoverageRunner example_options ''/p''
          (snd (run example_libs example_tests ''/p'' (example_world False ''coverage on'')))))
       (snd (CoverageRunner example_options ''/p''
          (snd (run example_libs example_tests ''/p'' (example_world False ''coverage on'')))))))
     ''$$cov_1700000000000$$'' = Some []"
proof -
  have opts: "truthy (member example_options ''relativeSourcePath'')"
    by (simp add: example_options_def)
  have clock: "clock (example_world False ''coverage on'') = 1700000000000"
    "clock (example_run_world False example_options) = 1700000000000"
    by (simp_all add: example_world_def example_run_world_def)
  have again: "globals (snd (setupCoverage example_libs
      \<lparr>cr_options = example_options, cr_testsRoot = ''/p'',
       cr_coverageVar = ''$$cov_1700000000000$$''\<rparr>
      (example_run_world False example_options))) ''$$cov_1700000000000$$'' = Some []"
    by (simp add: setupCoverage_def Let_def example_libs_def example_options_def)
  show ?thesis
    by (simp add: example_run CoverageRunner_def opts clock example_coverageVar again)
       (simp add: example_run_world_def)
qed

text \<open>
  Claim C6 as amended: the runner that \<^verbatim>\<open>setupCoverage\<close> returns has the key made from the
  clock reading at construction, \<^verbatim>\<open>setupCoverage\<close> leaves the empty table under that key,
  and the key of any other clock reading is a different one.
\<close>

theorem counter_table_key_from_clock:
  assumes "setupCoverage L (fst (CoverageRunner options testsRoot w))
             (snd (CoverageRunner options testsRoot w)) = (Inr armed, w')"
  shows "cr_coverageVar armed = coverageVar (clock w) \<and>
         globals w' (cr_coverageVar armed) = Some [] \<and>
         (\<forall>time. time \<noteq> clock w \<longrightarrow> coverageVar time \<noteq> cr_coverageVar armed)"
proof -
  have var: "cr_coverageVar (fst (CoverageRunner options testsRoot w)) = coverageVar (clock w)"
    by (simp add: CoverageRunner_def Let_def)
  from assms have "cr_coverageVar armed = cr_coverageVar (fst (CoverageRunner options testsRoot w))"
    and "globals w' (cr_coverageVar armed) = Some []"
    by (auto simp: setupCoverage_def Let_def split: sum.splits)
  with var show ?thesis by (auto dest: coverageVar_inj)
qed

text \<open>Witness for C6 as amended: the example, and the key of the next millisecond.\<close>

theorem counter_table_key_from_clock_witness:
  "cr_coverageVar (example_runner False example_options) =
     coverageVar (clock (example_world False ''coverage on'')) \<and>
   globals (example_armed_world False example_options)
     (cr_coverageVar (example_runner False example_options)) = Some [] \<and>
   coverageVar 1700000000001 \<noteq> cr_coverageVar (example_runner False example_options)"
proof -
  have opts: "truthy (member example_options ''relativeSourcePath'')"
    by (simp add: example_options_def)
  have clock: "clock (example_world False ''coverage on'') = 1700000000000"
    by (simp add: example_world_def)
  have "setupCoverage example_libs
      (fst (CoverageRunner example_options ''/p'' (example_world False ''coverage on'')))
      (snd (CoverageRunner example_options ''/p'' (example_world False ''coverage on''))) =
      (Inr (example_runner False example_options), example_armed_world False example_options)"
    by (simp add: CoverageRunner_def opts clock example_coverageVar example_setup)
  note key = counter_table_key_from_clock [OF this]
  from key have "\<forall>time. time \<noteq> clock (example_world False ''coverage on'') \<longrightarrow>
      coverageVar time \<noteq> cr_coverageVar (example_runner False example_options)"
    by blast
  then have "coverageVar 1700000000001 \<noteq> cr_coverageVar (example_runner False example_options)"
    by (simp add: clock)
  with key show ?thesis by blast
qed

subsection \<open>C7: emitting twice\<close>

text \<open>
  Claim C7: after a report that went through, a second call of \<^verbatim>\<open>reportCoverage\<close> in the
  same process goes through as well; the snapshot path holds the serialised table
  after the first call, and the second call leaves every file, this one included, and the
  table as they are: it writes the same bytes to the same path.
\<close>

theorem second_emission_writes_same_snapshot:
  assumes ok: "reportCoverage L this w = (Inr (), w1)"
    and tab: "globals w (cr_coverageVar this) = Some cov0" and ne: "cov0 \<noteq> []"
  shows "\<exists>w2 dir cov.
           reportCoverage L this w1 = (Inr (), w2) \<and>
           path_join_js L (Str (cr_testsRoot this))
             (member (cr_options this) ''relativeCoverageDir'') = Inr dir \<and>
           globals w1 (cr_coverageVar this) = Some cov \<and>
           files w1 (fs_norm w1 (coverageFile L (cr_options this) (pid w1) dir)) =
             Some (JSON_stringify L cov) \<and>
           files w2 = files w1 \<and> globals w2 = globals w1"
proof -
  let ?var = "cr_coverageVar this"
  from reportCoverage_success [OF ok tab ne] obtain cov where
    fm: "fill_missing L w (cr_files this) cov0 = (None, cov)" and
    em: "emit_reports L this cov
           ((unhookRequire this w)\<lparr>globals := (globals w)(?var \<mapsto> cov)\<rparr>) = (Inr (), w1)"
    by blast
  let ?w0 = "(unhookRequire this w)\<lparr>globals := (globals w)(?var \<mapsto> cov)\<rparr>"
  from emit_reports_success [OF em] obtain dir rs where
    dir: "path_join_js L (Str (cr_testsRoot this))
            (member (cr_options this) ''relativeCoverageDir'') = Inr dir" and
    rs: "map (iReports_create L) (reportTypes (cr_options this)) = map Inr rs" and
    parent: "path_dirname L (fs_norm ?w0 (coverageFile L (cr_options this) (pid ?w0) dir)) \<in> dirs w1" and
    notdir: "fs_norm ?w0 (coverageFile L (cr_options this) (pid ?w0) dir) \<notin> dirs w1" and
    w1: "w1 = ?w0\<lparr>
            dirs := (if existsSync ?w0 dir then dirs ?w0 else insert (fs_norm ?w0 dir) (dirs ?w0)),
            files := (files ?w0)(fs_norm ?w0 (coverageFile L (cr_options this) (pid ?w0) dir)
                       \<mapsto> JSON_stringify L cov),
            rendered := rendered ?w0 @ map (\<lambda>r. (r, dir, transformCoverage L cov)) rs\<rparr>"
    by blast
  let ?cf = "coverageFile L (cr_options this) (pid w1) dir"
  have same: "fs_norm w1 = fs_norm ?w0" "pid w1 = pid ?w0"
    by (simp_all add: w1 fs_norm_def fun_eq_iff)
  have hooks1: "hooks w1 = hooks (unhookRequire this w)" by (simp add: w1)
  have glob1: "globals w1 = (globals w)(?var \<mapsto> cov)" by (simp add: w1)
  have file1: "files w1 (fs_norm w1 ?cf) = Some (JSON_stringify L cov)"
    by (simp add: same) (simp add: w1)
  have exists1: "existsSync w1 dir"
    by (simp add: existsSync_def same) (auto simp: w1 existsSync_def)
  have unhook: "unhookRequire this w1 = w1" by (rule unhookRequire_again [OF hooks1])
  have tab1: "globals w1 ?var = Some cov" by (simp add: glob1)
  from fm ne fill_missing_nonempty [of cov0 L w "cr_files this"] have ne1: "cov \<noteq> []" by simp
  have fm1: "fill_missing L w1 (cr_files this) cov = (None, cov)"
    by (rule fill_missing_complete [OF fm])
  have upd: "w1\<lparr>globals := (globals w1)(?var \<mapsto> cov)\<rparr> = w1"
    using tab1 by (simp add: map_upd_triv)
  have rep: "reportCoverage L this w1 = emit_reports L this cov w1"
    by (simp add: reportCoverage_def unhook tab1 ne1 fm1 upd)
  have mk: "mkDirIfExists L dir w1 = Inr w1" by (simp add: mkDirIfExists_def exists1)
  have wr: "writeFileSync L ?cf (JSON_stringify L cov) w1 = Inr w1"
    using parent notdir file1 by (simp add: writeFileSync_def same map_upd_triv)
  have vis: "visit_reports L (transformCoverage L cov) dir (reportTypes (cr_options this)) w1 =
      (Inr (), w1\<lparr>rendered := rendered w1 @ map (\<lambda>r. (r, dir, transformCoverage L cov)) rs\<rparr>)"
    using rs by (auto simp: visit_reports_success)
  have "reportCoverage L this w1 =
      (Inr (), w1\<lparr>rendered := rendered w1 @ map (\<lambda>r. (r, dir, transformCoverage L cov)) rs\<rparr>)"
    by (simp add: rep emit_reports_def dir mk wr vis)
  with dir tab1 file1 show ?thesis by auto
qed

text \<open>Witness for C7: the example after its exit listener has run.\<close>

theorem second_emission_writes_same_snapshot_witness:
  "\<exists>w2 dir cov.
     reportCoverage example_libs (example_runner False example_options)
       (example_exit_world False example_options [''lcovonly'']) = (Inr (), w2) \<and>
     path_join_js example_libs (Str (cr_testsRoot (example_runner False example_options)))
       (member (cr_options (example_runner False example_options)) ''relativeCoverageDir'') = Inr dir \<and>
     globals (example_exit_world False example_options [''lcovonly''])
       (cr_coverageVar (example_runner False example_options)) = Some cov \<and>
     files (example_exit_world False example_options [''lcovonly''])
       (fs_norm (example_exit_world False example_options [''lcovonly''])
          (coverageFile example_libs (cr_options (example_runner False example_options))
             (pid (example_exit_world False example_options [''lcovonly''])) dir)) =
       Some (JSON_stringify example_libs cov) \<and>
     files w2 = files (example_exit_world False example_options [''lcovonly'']) \<and>
     globals w2 = globals (example_exit_world False example_options [''lcovonly''])"
  by (rule second_emission_writes_same_snapshot [OF example_report example_table_facts(1,2)])

subsection \<open>C8: no coverage stage without an enabled config file\<close>

text \<open>
  Claim C8: when the coverage config file does not exist, or holds an object whose
  \<^verbatim>\<open>enabled\<close> is \<^verbatim>\<open>false\<close>, \<^verbatim>\<open>run\<close> does nothing but glob the test files and run them; after
  it the directories, the files, the require hooks and the exit listeners are those from
  before.
\<close>

theorem coverage_not_armed_when_absent_or_disabled:
  assumes "get_prop (testOptions w) ''coverConfig'' = Inr (Str name)"
    and "\<not> existsSync w (path_join L testsRoot name) \<or>
         (\<exists>content kvs. readFileSync w (path_join L testsRoot name) = Inr content \<and>
            JSON_parse L content = Inr (Obj kvs) \<and> map_of kvs ''enabled'' = Some (Bool False))"
  shows "run L E testsRoot w = (Inr (), run_tests L E testsRoot w) \<and>
         dirs (snd (run L E testsRoot w)) = dirs w \<and>
         files (snd (run L E testsRoot w)) = files w \<and>
         hooks (snd (run L E testsRoot w)) = hooks w \<and>
         exit_listeners (snd (run L E testsRoot w)) = exit_listeners w"
proof -
  from assms(2) have "\<exists>v. readCoverOptions L testsRoot w = Inr v \<and>
      \<not> (truthy v \<and> truthy (member v ''enabled''))"
  proof
    assume "\<not> existsSync w (path_join L testsRoot name)"
    with assms(1) show ?thesis by (simp add: readCoverOptions_def)
  next
    assume "\<exists>content kvs. readFileSync w (path_join L testsRoot name) = Inr content \<and>
            JSON_parse L content = Inr (Obj kvs) \<and> map_of kvs ''enabled'' = Some (Bool False)"
    then obtain content kvs where rd: "readFileSync w (path_join L testsRoot name) = Inr content"
      and ps: "JSON_parse L content = Inr (Obj kvs)"
      and en: "map_of kvs ''enabled'' = Some (Bool False)" by blast
    from rd have "existsSync w (path_join L testsRoot name)"
      by (auto simp: readFileSync_def existsSync_def split: option.splits if_splits)
    with assms(1) rd ps en show ?thesis by (simp add: readCoverOptions_def)
  qed
  then have "run L E testsRoot w = (Inr (), run_tests L E testsRoot w)"
    by (auto simp: run_def)
  with run_tests_frame [of L E testsRoot w] show ?thesis by simp
qed

text \<open>
  Witness for C8: the example with \<^verbatim>\<open>enabled: false\<close>, and the example without a config
  file.
\<close>

theorem coverage_not_armed_when_absent_or_disabled_witness:
  "run example_libs example_tests ''/p'' (example_world False ''coverage off'') =
     (Inr (), run_tests example_libs example_tests ''/p'' (example_world False ''coverage off'')) \<and>
   dirs (snd (run example_libs example_tests ''/p'' (example_world False ''coverage off''))) =
     dirs (example_world False ''coverage off'') \<and>
   files (snd (run example_libs example_tests ''/p'' (example_world False ''coverage off''))) =
     files (example_world False ''coverage off'') \<and>
   hooks (snd (run example_libs example_tests ''/p'' (example_world False ''coverage off''))) =
     hooks (example_world False ''coverage off'') \<and>
   exit_listeners (snd (run example_libs example_tests ''/p'' (example_world False ''coverage off''))) =
     exit_listeners (example_world False ''coverage off'') \<and>
   run example_libs example_tests ''/p'' example_no_config =
     (Inr (), run_tests example_libs example_tests ''/p'' example_no_config) \<and>
   dirs (snd (run example_libs example_tests ''/p'' example_no_config)) = dirs example_no_config \<and>
   files (snd (run example_libs example_tests ''/p'' example_no_config)) = files example_no_config \<and>
   hooks (snd (run example_libs example_tests ''/p'' example_no_config)) = hooks example_no_config \<and>
   exit_listeners (snd (run example_libs example_tests ''/p'' example_no_config)) =
     exit_listeners example_no_config"
proof -
  have name: "get_prop (testOptions (example_world False ''coverage off'')) ''coverConfig'' =
      Inr (Str ''coverconfig.json'')"
    "get_prop (testOptions example_no_config) ''coverConfig'' = Inr (Str ''coverconfig.json'')"
    by (simp_all add: get_prop_def example_world_def example_no_config_def)
  have disabled: "\<exists>content kvs.
      readFileSync (example_world False ''coverage off'')
        (path_join example_libs ''/p'' ''coverconfig.json'') = Inr content \<and>
      JSON_parse example_libs content = Inr (Obj kvs) \<and>
      map_of kvs ''enabled'' = Some (Bool False)"
    by (simp add: fs_simps example_simps)
  have absent: "\<not> existsSync example_no_config (path_join example_libs ''/p'' ''coverconfig.json'')"
    by (simp add: fs_simps example_simps example_no_config_def)
  from coverage_not_armed_when_absent_or_disabled [OF name(1) disjI2 [OF disabled]]
    coverage_not_armed_when_absent_or_disabled [OF name(2) disjI1 [OF absent]]
  show ?thesis by blast
qed

subsection \<open>C9: a missing source map\<close>

text \<open>
  Claim C9: when the companion \<^verbatim>\<open>.map\<close> file cannot be read, or is read and does not
  parse, the transformer is the instrumenter called without a source map: nothing is
  thrown on account of the map, and the instrumented text is the one the instrumenter
  gives for the code alone.
\<close>

theorem missing_source_map_tolerated:
  assumes "(\<exists>err. readFileSync w (filename @ ''.map'') = Inl err) \<or>
           (\<exists>content err. readFileSync w (filename @ ''.map'') = Inr content \<and>
              JSON_parse L content = Inl err)"
  shows "transformer L w code filename = instrumentSync L code filename Undefined"
  using assms by (auto simp: transformer_def read_source_map_def)

text \<open>Witness for C9: \<^verbatim>\<open>A.js\<close> in the example has no \<^verbatim>\<open>.map\<close> file and is instrumented.\<close>

theorem missing_source_map_tolerated_witness:
  "readFileSync (example_world False ''coverage on'') (''/p/src/A.js'' @ ''.map'') = Inl ENOENT \<and>
   transformer example_libs (example_world False ''coverage on'') ''function a() {}'' ''/p/src/A.js'' =
     Inr (''cov;function a() {}'',
          \<lparr>fc_path = ''/p/src/A.js'', fc_s = [(0, 1), (1, 0)], fc_f = [(0, 0)], fc_b = [],
           fc_meta = Undefined\<rparr>)"
proof -
  have missing: "readFileSync (example_world False ''coverage on'') (''/p/src/A.js'' @ ''.map'') =
      Inl ENOENT"
    by (simp add: fs_simps example_simps)
  then have "(\<exists>err. readFileSync (example_world False ''coverage on'') (''/p/src/A.js'' @ ''.map'') =
      Inl err) \<or> (\<exists>content err. readFileSync (example_world False ''coverage on'')
        (''/p/src/A.js'' @ ''.map'') = Inr content \<and> JSON_parse example_libs content = Inl err)"
    by blast
  from missing_source_map_tolerated [OF this, of "''function a() {}''"] missing
  show ?thesis by (simp add: example_libs_def example_instrument_def)
qed

subsection \<open>C10: run before configure\<close>

text \<open>
  Claim C10: while \<^verbatim>\<open>testOptions\<close> is \<^verbatim>\<open>undefined\<close>, \<^verbatim>\<open>run\<close> throws a TypeError when it
  reads \<^verbatim>\<open>testOptions.coverConfig\<close> and changes nothing: no test file is globbed.
\<close>

theorem run_before_configure_throws:
  "testOptions w = Undefined \<Longrightarrow> run L E testsRoot w = (Inl TypeError, w)"
  by (simp add: run_def readCoverOptions_def get_prop_def)

text \<open>Witness for C10: the example before \<^verbatim>\<open>configure\<close>.\<close>

theorem run_before_configure_throws_witness:
  "testOptions example_unconfigured = Undefined \<and>
   run example_libs example_tests ''/p'' example_unconfigured = (Inl TypeError, example_unconfigured)"
proof -
  have "testOptions example_unconfigured = Undefined"
    by (simp add: example_unconfigured_def)
  with run_before_configure_throws [OF this] show ?thesis by simp
qed

end
